theory Spec2Isabelle
  imports Main
begin

section \<open>The start-up script \<open>bin/sl-pm.js\<close> of strong-pm\<close>

text \<open>
  The script is one sequential program with two asynchronous continuations (the
  callback of \<open>fs.stat\<close> and the callback of the migration routine). It is embedded
  as a function from the things the script reads (the process environment, the argument
  vector, what the option parser returns, what the file system answers) to the list of
  effects it performs, in program order, and the way the start-up ends.

  Everything the script only calls is a parameter of the model: the option parser of
  \<open>posix-getopt\<close>, the functions of \<open>path\<close>, \<open>userhome\<close>, \<open>mkdirp\<close>, \<open>fs.stat\<close>,
  \<open>strong-globalize\<close>, the migration routine \<open>lib/upgrade-db\<close> and the \<open>Server\<close>.
\<close>

subsection \<open>JavaScript values\<close>

text \<open>
  The values the variables \<open>base\<close>, \<open>listen\<close> and \<open>basePort\<close> can hold: a number,
  a string, or \<open>undefined\<close> (the value of a property that an object does not have).
\<close>

datatype jsval = JUndefined | JNum int | JStr string

text \<open>A property that is a string when present, as a value.\<close>

definition js_of :: "string option \<Rightarrow> jsval" where
  "js_of p = (case p of None \<Rightarrow> JUndefined | Some v \<Rightarrow> JStr v)"

text \<open>
  A string is a list of characters with the codes 0 to 255, read as the code points of
  that range. \<open>String.prototype.toLowerCase\<close> on these adds 32 to the code of the
  letters A to Z (65 to 90) and of the capital letters with the codes 192 to 222 (all
  but the multiplication sign, 215), and leaves every other character as it is.
\<close>

definition lower_char :: "char \<Rightarrow> char" where
  "lower_char c =
     (let n = (of_char c :: nat) in
      if (65 \<le> n \<and> n \<le> 90) \<or> (192 \<le> n \<and> n \<le> 222 \<and> n \<noteq> 215)
      then char_of (n + 32)
      else c)"

definition toLowerCase :: "string \<Rightarrow> string" where
  "toLowerCase name = map lower_char name"

subsection \<open>The driver registry\<close>

text \<open>
  \<open>var DRIVERS = {direct: require('../lib/drivers/direct'),
  docker: require('../lib/drivers/docker')}\<close>: an object literal with two own
  properties. Its prototype is \<open>Object.prototype\<close>, and reading a property with
  \<open>DRIVERS[key]\<close> looks the key up in the object first and in its prototype next.
\<close>

datatype driver = DirectDriver | DockerDriver

definition DRIVERS :: "string \<rightharpoonup> driver" where
  "DRIVERS = [''direct'' \<mapsto> DirectDriver, ''docker'' \<mapsto> DockerDriver]"

text \<open>The property names of \<open>Object.prototype\<close>.\<close>

definition Object_prototype :: "string list" where
  "Object_prototype =
     [''constructor'', ''__defineGetter__'', ''__defineSetter__'', ''hasOwnProperty'',
      ''__lookupGetter__'', ''__lookupSetter__'', ''isPrototypeOf'',
      ''propertyIsEnumerable'', ''toString'', ''valueOf'', ''__proto__'',
      ''toLocaleString'']"

text \<open>
  What the variable \<open>driver\<close> can hold: one of the two driver modules, a property that
  the registry inherits from its prototype (named by its key), or \<open>undefined\<close>.
\<close>

datatype driver_value = Module driver | Inherited string | Absent

definition DRIVERS_get :: "string \<Rightarrow> driver_value" where
  "DRIVERS_get key =
     (case DRIVERS key of
        Some d \<Rightarrow> Module d
      | None \<Rightarrow> if key \<in> set Object_prototype then Inherited key else Absent)"

subsection \<open>Effects and outcomes\<close>

text \<open>The options object handed to \<open>new Server\<close> (lines 144 to 152), with its keys
  \<open>Driver\<close>, \<open>baseDir\<close>, \<open>basePort\<close>, \<open>cmdName\<close>, \<open>listenPort\<close> and \<open>dbDriver\<close>.\<close>

record server_options =
  Driver_option :: driver_value
  baseDir_option :: string
  basePort_option :: jsval
  cmdName_option :: string
  listenPort_option :: jsval
  dbDriver_option :: string

text \<open>
  The calls the script makes that reach outside it, each with its arguments. \<open>GError\<close>
  and \<open>GLog\<close> are \<open>g.error\<close> and \<open>g.log\<close> of \<open>strong-globalize\<close>, with the format
  string and the values to be formatted into it.
\<close>

datatype event =
    ProcessOn string
  | SetRootDir string
  | ConsoleLog string
  | GError string "jsval list"
  | GLog string "jsval list"
  | Mkdirp string
  | Chdir string
  | FsStat string
  | UpgradeDb string string bool
  | NewServer server_options
  | ServerOn string
  | ServerStart

text \<open>
  How the start-up ends: \<open>process.exit\<close> with a status, an exception that nothing
  catches, or the end of the script's own work with the server started.
\<close>

datatype outcome = Exit nat | Uncaught string | Running

text \<open>The error object a callback receives; the script reads its \<open>message\<close> only.\<close>

record js_error =
  message :: string

subsection \<open>What the script reads\<close>

text \<open>
  One object returned by \<open>parser.getopt()\<close>. The script reads the properties
  \<open>option\<close>, \<open>optarg\<close> and \<open>optopt\<close>; a property that is absent reads as \<open>undefined\<close>.
\<close>

record getopt_result =
  option :: string
  optarg :: "string option"
  optopt :: "string option"

text \<open>
  The surroundings of one run. \<open>getopt_results\<close> are the objects that successive calls
  of \<open>parser.getopt()\<close> return before it returns \<open>undefined\<close>, and \<open>getopt_optind\<close> is
  \<open>parser.optind()\<close> after that. \<open>'fs\<close> is the state of the file system:
  \<open>fs_stat\<close> is true when \<open>fs.stat\<close> calls back without an error, \<open>mkdirp\<close> returns
  the new state or \<open>None\<close> when it throws, \<open>chdir\<close> is true when
  \<open>process.chdir\<close> returns, and \<open>upgradeDb\<close> returns what the migration routine calls
  back with (\<open>None\<close> for no error) and the new state. \<open>Number\<close> is JavaScript's
  \<open>Number\<close> on a string, with \<open>None\<close> for \<open>NaN\<close>; \<open>usage\<close> is
  \<open>g.t('sl-pm.txt').replace(/%MAIN%/g, $0).trim()\<close> as a function of \<open>$0\<close>;
  \<open>rootDir\<close> is \<open>path.resolve(__dirname, '..')\<close>.
\<close>

record 'fs world =
  process_env :: "string \<rightharpoonup> string"
  process_pid :: int
  argv :: "string list"
  getopt_results :: "getopt_result list"
  getopt_optind :: nat
  path_basename :: "string \<Rightarrow> string"
  path_resolve :: "string \<Rightarrow> string"
  path_join :: "string \<Rightarrow> string \<Rightarrow> string"
  home :: "string \<Rightarrow> string"
  usage :: "string \<Rightarrow> string"
  Number :: "string \<Rightarrow> int option"
  versionPm :: string
  versionApi :: string
  rootDir :: string
  fs_stat :: "'fs \<Rightarrow> string \<Rightarrow> bool"
  mkdirp :: "'fs \<Rightarrow> string \<Rightarrow> 'fs option"
  chdir :: "'fs \<Rightarrow> string \<Rightarrow> bool"
  upgradeDb :: "'fs \<Rightarrow> string \<Rightarrow> string \<Rightarrow> bool \<Rightarrow> js_error option \<times> 'fs"

text \<open>The variables of the script that the option loop assigns (lines 55 to 59), and
  \<open>process.env\<close>, which the option \<open>s\<close> writes to.\<close>

record vars =
  base :: jsval
  listen :: jsval
  driver :: driver_value
  basePort :: jsval
  dbDriver :: string
  env :: "string \<rightharpoonup> string"

subsection \<open>Lines 38 to 61: the display name and the initial values\<close>

text \<open>
  \<open>a || b\<close> and \<open>a ? a : b\<close> on an environment variable: an unset variable and the
  empty string are falsy.
\<close>

definition env_or :: "string option \<Rightarrow> string \<Rightarrow> string" where
  "env_or v d = (case v of None \<Rightarrow> d | Some x \<Rightarrow> if x = [] then d else x)"

text \<open>
  \<open>$0 = process.env.CMD ? process.env.CMD : path.basename(argv[1])\<close>. When \<open>CMD\<close> is
  falsy and the argument vector has no second entry, \<open>path.basename(undefined)\<close>
  throws a \<open>TypeError\<close>, which is the result \<open>None\<close>.
\<close>

definition dollar0 :: "'fs world \<Rightarrow> string option" where
  "dollar0 w =
     (case process_env w ''CMD'' of
        Some c \<Rightarrow>
          if c \<noteq> [] then Some c
          else (case argv w of _ # a1 # _ \<Rightarrow> Some (path_basename w a1) | _ \<Rightarrow> None)
      | None \<Rightarrow> (case argv w of _ # a1 # _ \<Rightarrow> Some (path_basename w a1) | _ \<Rightarrow> None))"

text \<open>
  \<open>Number(process.env.STRONGLOOP_BASEPORT) || 3000\<close>: \<open>Number(undefined)\<close> is
  \<open>NaN\<close>, and \<open>NaN\<close> and \<open>0\<close> are falsy.
\<close>

definition initial_basePort :: "'fs world \<Rightarrow> jsval" where
  "initial_basePort w =
     (case process_env w ''STRONGLOOP_BASEPORT'' of
        None \<Rightarrow> JNum 3000
      | Some v \<Rightarrow>
          (case Number w v of
             None \<Rightarrow> JNum 3000
           | Some n \<Rightarrow> if n = 0 then JNum 3000 else JNum n))"

definition initial_vars :: "'fs world \<Rightarrow> vars" where
  "initial_vars w =
     \<lparr> base = JStr (home w ''.strong-pm''),
       listen = JNum 8701,
       driver = DRIVERS_get ''direct'',
       basePort = initial_basePort w,
       dbDriver = ''sqlite3'',
       env = process_env w \<rparr>"

subsection \<open>Lines 63 to 102: the option loop\<close>

text \<open>
  The body of the \<open>switch\<close> for one object \<open>opt\<close> returned by the parser: the effects,
  and either the way the process ends there or the variables after it.
  \<open>process.exit()\<close> without an argument ends the process with status 0.
  \<open>option.optarg.toLowerCase()\<close> throws a \<open>TypeError\<close> when \<open>optarg\<close> is
  \<open>undefined\<close>.
\<close>

definition getopt_case ::
  "'fs world \<Rightarrow> string \<Rightarrow> getopt_result \<Rightarrow> vars \<Rightarrow> event list \<times> (outcome + vars)" where
  "getopt_case w cmd opt s =
     (if option opt = ''v'' then ([ConsoleLog (versionPm w)], Inl (Exit 0))
      else if option opt = ''h'' then ([ConsoleLog (usage w cmd)], Inl (Exit 0))
      else if option opt = ''b'' then ([], Inr (s\<lparr>base := js_of (optarg opt)\<rparr>))
      else if option opt = ''c'' then
        ([GError ''Warning: ignoring config file: %s'' [js_of (optarg opt)]], Inr s)
      else if option opt = ''d'' then
        (case optarg opt of
           None \<Rightarrow> ([], Inl (Uncaught ''TypeError''))
         | Some name \<Rightarrow> ([], Inr (s\<lparr>driver := DRIVERS_get (toLowerCase name)\<rparr>)))
      else if option opt = ''l'' then ([], Inr (s\<lparr>listen := js_of (optarg opt)\<rparr>))
      else if option opt = ''N'' then ([], Inr s)
      else if option opt = ''s'' then
        ([], Inr (s\<lparr>env := (env s)(''STRONGLOOP_PM_SKIP_DEFAULT_INSTALL'' \<mapsto> ''true'')\<rparr>))
      else if option opt = ''P'' then ([], Inr (s\<lparr>basePort := js_of (optarg opt)\<rparr>))
      else if option opt = ''M'' then ([], Inr (s\<lparr>dbDriver := ''memory''\<rparr>))
      else
        ([GError ''Invalid usage (near option '%s'), try `{{%s --help}}`.''
            [js_of (optopt opt), JStr cmd]],
         Inl (Exit 1)))"

text \<open>
  \<open>while ((option = parser.getopt()) !== undefined)\<close>: the loop takes the objects in
  the order the parser returns them and stops at the first one that ends the process.
\<close>

fun getopt_loop ::
  "'fs world \<Rightarrow> string \<Rightarrow> getopt_result list \<Rightarrow> vars \<Rightarrow> event list \<times> (outcome + vars)" where
  "getopt_loop w cmd [] s = ([], Inr s)"
| "getopt_loop w cmd (opt # rest) s =
     (case getopt_case w cmd opt s of
        (evs, Inl out) \<Rightarrow> (evs, Inl out)
      | (evs, Inr s') \<Rightarrow>
          (case getopt_loop w cmd rest s' of (evs', r) \<Rightarrow> (evs @ evs', r)))"

subsection \<open>Lines 143 to 180: the bootstrapper\<close>

text \<open>
  \<open>startPm\<close> constructs the server, registers one handler, for the event
  \<open>listening\<close>, and starts the server. \<open>stopWhenDone\<close> has an empty body (all of it is
  commented out). \<open>baseDir\<close> is the variable \<open>base\<close>, a string from line 104 on.
\<close>

definition startPm :: "string \<Rightarrow> string \<Rightarrow> vars \<Rightarrow> event list" where
  "startPm cmd baseDir s =
     [NewServer \<lparr> Driver_option = driver s, baseDir_option = baseDir,
                  basePort_option = basePort s, cmdName_option = cmd,
                  listenPort_option = listen s, dbDriver_option = dbDriver s \<rparr>,
      ServerOn ''listening'',
      ServerStart]"

text \<open>The handler registered for \<open>listening\<close>, called with \<open>listenAddr\<close>, of which it
  reads \<open>port\<close> (lines 154 to 166).\<close>

definition on_listening :: "'fs world \<Rightarrow> string \<Rightarrow> string \<Rightarrow> vars \<Rightarrow> jsval \<Rightarrow> event list" where
  "on_listening w cmd baseDir s port =
     [GLog ''%s(%d): {{StrongLoop PM}} v%s (API v%s) on port `%s`''
        [JStr cmd, JNum (process_pid w), JStr (versionPm w), JStr (versionApi w), port],
      GLog ''%s(%d): Base folder `%s`'' [JStr cmd, JNum (process_pid w), JStr baseDir],
      GLog ''%s(%d): Applications on port `%d + service ID`''
        [JStr cmd, JNum (process_pid w), basePort s]]"

text \<open>The handler registered for \<open>disconnect\<close> (lines 10 to 12).\<close>

definition on_disconnect :: outcome where
  "on_disconnect = Exit 2"

subsection \<open>Lines 120 to 141 and 209 to 216: the backend gate\<close>

text \<open>
  \<open>checkAndUpgradeDb(baseDir, callback)\<close>: the effects, the error the callback is
  called with (\<open>None\<close> for a call without one), and the file system after it. The
  migration routine is taken to call back once.
\<close>

definition memoryDbLocation :: "'fs world \<Rightarrow> vars \<Rightarrow> string \<Rightarrow> string" where
  "memoryDbLocation w s baseDir =
     env_or (env s ''STRONGLOOP_MESH_DB'') (path_join w baseDir ''strong-pm.json'')"

definition checkAndUpgradeDb ::
  "'fs world \<Rightarrow> vars \<Rightarrow> 'fs \<Rightarrow> string \<Rightarrow> event list \<times> js_error option \<times> 'fs" where
  "checkAndUpgradeDb w s fs baseDir =
     (let loc = memoryDbLocation w s baseDir in
      if \<not> fs_stat w fs loc then ([FsStat loc], None, fs)
      else
        (case upgradeDb w fs baseDir loc False of
           (err, fs') \<Rightarrow> ([FsStat loc, UpgradeDb baseDir loc False], err, fs')))"

definition backend_gate ::
  "'fs world \<Rightarrow> string \<Rightarrow> string \<Rightarrow> vars \<Rightarrow> 'fs \<Rightarrow> event list \<times> outcome \<times> 'fs" where
  "backend_gate w cmd baseDir s fs =
     (if dbDriver s = ''sqlite3'' then
        (case checkAndUpgradeDb w s fs baseDir of
           (evs, Some err, fs') \<Rightarrow>
             (evs @ [GError ''%s(%d) %s'' [JStr cmd, JNum (process_pid w), JStr (message err)]],
              Exit 1, fs')
         | (evs, None, fs') \<Rightarrow> (evs @ startPm cmd baseDir s, Running, fs'))
      else
        (let sqliteDbPath = path_join w baseDir ''strong-mesh.db'' in
         if fs_stat w fs sqliteDbPath then
           ([FsStat sqliteDbPath,
             GError (''%s(%d) {{SQLite3}} database found at %s. Please delete this'' @
                     ''file if you wish to use the {{JSON}} file database.'')
               [JStr cmd, JNum (process_pid w), JStr sqliteDbPath]],
            Exit 1, fs)
         else (FsStat sqliteDbPath # startPm cmd baseDir s, Running, fs)))"

subsection \<open>Lines 104 to 118: validation and the base directory\<close>

text \<open>
  \<open>path.resolve(base)\<close> throws a \<open>TypeError\<close> when \<open>base\<close> is not a string;
  \<open>mkdirp\<close> and \<open>process.chdir\<close> throw when they fail. \<open>listen == null\<close> holds for
  \<open>null\<close> and \<open>undefined\<close>. The result is the effects and either the way the process
  ends or the resolved base directory, the variables and the file system.
\<close>

definition validate ::
  "'fs world \<Rightarrow> string \<Rightarrow> vars \<Rightarrow> 'fs \<Rightarrow> event list \<times> (outcome + string \<times> vars \<times> 'fs)" where
  "validate w cmd s fs =
     (case base s of
        JStr b \<Rightarrow>
          (let resolved = path_resolve w b; s' = s\<lparr>base := JStr resolved\<rparr> in
           if getopt_optind w \<noteq> length (argv w) then
             ([GError ''Invalid usage (extra arguments), try `{{%s --help}}`.'' [JStr cmd]],
              Inl (Exit 1))
           else if listen s' = JUndefined then
             ([GError ''Listen port was not specified, try `{{%s --help}}`.'' [JStr cmd]],
              Inl (Exit 1))
           else
             (case mkdirp w fs resolved of
                None \<Rightarrow> ([Mkdirp resolved], Inl (Uncaught ''Error''))
              | Some fs' \<Rightarrow>
                  if chdir w fs' resolved then
                    ([Mkdirp resolved, Chdir resolved], Inr (resolved, s', fs'))
                  else ([Mkdirp resolved, Chdir resolved], Inl (Uncaught ''Error''))))
      | _ \<Rightarrow> ([], Inl (Uncaught ''TypeError'')))"

subsection \<open>The configuration resolver and the whole script\<close>

text \<open>
  Lines 10 to 118: the handler for \<open>disconnect\<close> is registered first, then the
  display name is computed, the options are read and the result is validated.
\<close>

definition config_resolver ::
  "'fs world \<Rightarrow> 'fs \<Rightarrow> event list \<times> (outcome + string \<times> string \<times> vars \<times> 'fs)" where
  "config_resolver w fs =
     (case dollar0 w of
        None \<Rightarrow> ([ProcessOn ''disconnect''], Inl (Uncaught ''TypeError''))
      | Some cmd \<Rightarrow>
          (case getopt_loop w cmd (getopt_results w) (initial_vars w) of
             (evs, Inl out) \<Rightarrow>
               (ProcessOn ''disconnect'' # SetRootDir (rootDir w) # evs, Inl out)
           | (evs, Inr s) \<Rightarrow>
               (case validate w cmd s fs of
                  (evs', Inl out) \<Rightarrow>
                    (ProcessOn ''disconnect'' # SetRootDir (rootDir w) # evs @ evs', Inl out)
                | (evs', Inr (baseDir, s', fs')) \<Rightarrow>
                    (ProcessOn ''disconnect'' # SetRootDir (rootDir w) # evs @ evs',
                     Inr (cmd, baseDir, s', fs')))))"

definition main :: "'fs world \<Rightarrow> 'fs \<Rightarrow> event list \<times> outcome \<times> 'fs" where
  "main w fs =
     (case config_resolver w fs of
        (evs, Inl out) \<Rightarrow> (evs, out, fs)
      | (evs, Inr (cmd, baseDir, s, fs')) \<Rightarrow>
          (case backend_gate w cmd baseDir s fs' of
             (evs', out, fs'') \<Rightarrow> (evs @ evs', out, fs'')))"

subsection \<open>Kinds of effects\<close>

text \<open>Work on the file system, the migration, and work on the server.\<close>

fun fs_work :: "event \<Rightarrow> bool" where
  "fs_work (Mkdirp _) = True"
| "fs_work (Chdir _) = True"
| "fs_work (FsStat _) = True"
| "fs_work _ = False"

fun migration_work :: "event \<Rightarrow> bool" where
  "migration_work (UpgradeDb _ _ _) = True"
| "migration_work _ = False"

fun server_work :: "event \<Rightarrow> bool" where
  "server_work (NewServer _) = True"
| "server_work (ServerOn _) = True"
| "server_work ServerStart = True"
| "server_work _ = False"

definition startup_work :: "event \<Rightarrow> bool" where
  "startup_work e = (fs_work e \<or> migration_work e \<or> server_work e)"

text \<open>The events of the server that a list of effects registers a handler for.\<close>

fun handlers :: "event list \<Rightarrow> string list" where
  "handlers [] = []"
| "handlers (ServerOn name # evs) = name # handlers evs"
| "handlers (_ # evs) = handlers evs"

text \<open>
  The options that the option string declares with a colon (\<open>b:\<close>, \<open>c:\<close>, \<open>d:\<close>,
  \<open>l:\<close>, \<open>N:\<close>, \<open>P:\<close>) take an argument, and the parser returns such an option
  together with its argument: \<open>optarg\<close> is a string then.
\<close>

definition takes_argument :: "string \<Rightarrow> bool" where
  "takes_argument name = (name \<in> set [''b'', ''c'', ''d'', ''l'', ''N'', ''P''])"

definition with_argument :: "getopt_result \<Rightarrow> bool" where
  "with_argument opt = (if takes_argument (option opt) then optarg opt \<noteq> None else True)"

text \<open>The ten options that the \<open>switch\<close> has a case for.\<close>

definition recognized :: "string \<Rightarrow> bool" where
  "recognized name =
     (name \<in> set [''v'', ''h'', ''b'', ''c'', ''d'', ''l'', ''N'', ''s'', ''P'', ''M''])"

subsection \<open>An example of surroundings\<close>

text \<open>
  Concrete surroundings to run the model in: the file system is the list of the paths
  that exist, a successful migration removes the legacy file, and the option parser has
  returned nothing. Runs with options update \<open>getopt_results\<close>, \<open>argv\<close> and
  \<open>getopt_optind\<close>.
\<close>

definition basename :: "string \<Rightarrow> string" where
  "basename p = rev (takeWhile (\<lambda>c. c \<noteq> CHR ''/'') (rev p))"

definition example_world :: "string list world" where
  "example_world =
     \<lparr> process_env = Map.empty,
       process_pid = 4242,
       argv = [''node'', ''/usr/bin/sl-pm''],
       getopt_results = [],
       getopt_optind = 2,
       path_basename = basename,
       path_resolve = (\<lambda>p. p),
       path_join = (\<lambda>a b. a @ ''/'' @ b),
       home = (\<lambda>name. ''/home/pm/'' @ name),
       usage = (\<lambda>cmd. ''usage: '' @ cmd @ '' [options]''),
       Number = (\<lambda>v. None),
       versionPm = ''5.2.1'',
       versionApi = ''6.0.0'',
       rootDir = ''/opt/strong-pm'',
       fs_stat = (\<lambda>fs p. p \<in> set fs),
       mkdirp = (\<lambda>fs p. Some (if p \<in> set fs then fs else p # fs)),
       chdir = (\<lambda>fs p. p \<in> set fs),
       upgradeDb = (\<lambda>fs b p dry. (None, removeAll p fs)) \<rparr>"

text \<open>The same with a migration routine that fails.\<close>

definition failing_world :: "string list world" where
  "failing_world =
     example_world\<lparr> upgradeDb := (\<lambda>fs b p dry. (Some \<lparr> message = ''corrupt'' \<rparr>, fs)) \<rparr>"

text \<open>An option without an argument, and one with.\<close>

definition flag :: "string \<Rightarrow> getopt_result" where
  "flag name = \<lparr> option = name, optarg = None, optopt = None \<rparr>"

definition with_arg :: "string \<Rightarrow> string \<Rightarrow> getopt_result" where
  "with_arg name arg = \<lparr> option = name, optarg = Some arg, optopt = None \<rparr>"

text \<open>What the parser returns for an option that the option string does not declare.\<close>

definition invalid :: "string \<Rightarrow> getopt_result" where
  "invalid name = \<lparr> option = ''?'', optarg = None, optopt = Some name \<rparr>"

text \<open>The variables after the option loop when the parser has returned nothing.\<close>

definition example_vars :: vars where
  "example_vars =
     \<lparr> base = JStr ''/home/pm/.strong-pm'', listen = JNum 8701,
       driver = Module DirectDriver, basePort = JNum 3000, dbDriver = ''sqlite3'',
       env = Map.empty \<rparr>"

text \<open>
  An option after which the loop goes on to the next one: one of the ten, neither the
  version nor the help option, and with its argument when it takes one.
\<close>

definition continues :: "getopt_result \<Rightarrow> bool" where
  "continues opt =
     (recognized (option opt) \<and> option opt \<noteq> ''v'' \<and> option opt \<noteq> ''h'' \<and>
      with_argument opt)"

text \<open>\<open>sl-pm --json-file-db\<close>\<close>

definition json_world :: "string list world" where
  "json_world =
     example_world\<lparr> getopt_results := [flag ''M''],
                     argv := [''node'', ''/usr/bin/sl-pm'', ''--json-file-db''],
                     getopt_optind := 3 \<rparr>"

text \<open>\<open>sl-pm -h -x\<close>\<close>

definition help_first_world :: "string list world" where
  "help_first_world =
     example_world\<lparr> getopt_results := [flag ''h'', invalid ''x''],
                     argv := [''node'', ''/usr/bin/sl-pm'', ''-h'', ''-x''],
                     getopt_optind := 4 \<rparr>"

text \<open>\<open>sl-pm -b /srv/pm -x -M\<close>\<close>

definition invalid_world :: "string list world" where
  "invalid_world =
     example_world\<lparr> getopt_results := [with_arg ''b'' ''/srv/pm'', invalid ''x'', flag ''M''],
                     argv := [''node'', ''/usr/bin/sl-pm'', ''-b'', ''/srv/pm'', ''-x'', ''-M''],
                     getopt_optind := 6 \<rparr>"

text \<open>\<open>sl-pm -s extra\<close>: the parser stops at the first argument that is not an option.\<close>

definition extra_world :: "string list world" where
  "extra_world =
     example_world\<lparr> getopt_results := [flag ''s''],
                     argv := [''node'', ''/usr/bin/sl-pm'', ''-s'', ''extra''],
                     getopt_optind := 3 \<rparr>"

text \<open>A parser that returns the option \<open>l\<close> without an argument.\<close>

definition null_listen_world :: "string list world" where
  "null_listen_world =
     example_world\<lparr> getopt_results := [flag ''l''],
                     argv := [''node'', ''/usr/bin/sl-pm'', ''-l''],
                     getopt_optind := 3 \<rparr>"

text \<open>\<open>sl-pm --listen 9000\<close>\<close>

definition listen_world :: "string list world" where
  "listen_world =
     example_world\<lparr> getopt_results := [with_arg ''l'' ''9000''],
                     argv := [''node'', ''/usr/bin/sl-pm'', ''--listen'', ''9000''],
                     getopt_optind := 4 \<rparr>"

text \<open>\<open>sl-pm -h\<close> and \<open>sl-pm extra\<close>\<close>

definition help_world :: "string list world" where
  "help_world =
     example_world\<lparr> getopt_results := [flag ''h''],
                     argv := [''node'', ''/usr/bin/sl-pm'', ''-h''],
                     getopt_optind := 3 \<rparr>"

definition leftover_world :: "string list world" where
  "leftover_world =
     example_world\<lparr> getopt_results := [],
                     argv := [''node'', ''/usr/bin/sl-pm'', ''extra''],
                     getopt_optind := 2 \<rparr>"

text \<open>\<open>sl-pm --driver Kubernetes\<close> and \<open>sl-pm --driver Constructor\<close>\<close>

definition unknown_driver_world :: "string list world" where
  "unknown_driver_world =
     example_world\<lparr> getopt_results := [with_arg ''d'' ''Kubernetes''],
                     argv := [''node'', ''/usr/bin/sl-pm'', ''--driver'', ''Kubernetes''],
                     getopt_optind := 4 \<rparr>"

definition inherited_driver_world :: "string list world" where
  "inherited_driver_world =
     example_world\<lparr> getopt_results := [with_arg ''d'' ''Constructor''],
                     argv := [''node'', ''/usr/bin/sl-pm'', ''--driver'', ''Constructor''],
                     getopt_optind := 4 \<rparr>"

section \<open>Properties\<close>

subsection \<open>The option loop does no start-up work\<close>

lemma getopt_case_no_work:
  "getopt_case w cmd opt s = (evs, r) \<Longrightarrow> e \<in> set evs \<Longrightarrow> \<not> startup_work e"
  by (auto simp: getopt_case_def startup_work_def split: if_splits option.splits)

lemma getopt_loop_no_work:
  "getopt_loop w cmd opts s = (evs, r) \<Longrightarrow> e \<in> set evs \<Longrightarrow> \<not> startup_work e"
proof (induction opts arbitrary: s evs r)
  case Nil
  then show ?case by simp
next
  case (Cons opt rest)
  obtain evs1 r1 where c: "getopt_case w cmd opt s = (evs1, r1)"
    by (cases "getopt_case w cmd opt s")
  show ?case
  proof (cases r1)
    case (Inl out)
    with Cons.prems c have "evs = evs1" by simp
    with Cons.prems c show ?thesis using getopt_case_no_work by blast
  next
    case (Inr s')
    obtain evs2 r2 where l: "getopt_loop w cmd rest s' = (evs2, r2)"
      by (cases "getopt_loop w cmd rest s'")
    with Cons.prems c Inr have "evs = evs1 @ evs2" "r = r2" by simp_all
    with Cons.prems(2) have "e \<in> set evs1 \<or> e \<in> set evs2" by simp
    then show ?thesis using getopt_case_no_work[OF c] Cons.IH[OF l] by blast
  qed
qed

lemma no_work_filters:
  assumes "\<And>e. e \<in> set evs \<Longrightarrow> \<not> startup_work e"
  shows "filter fs_work evs = []" and "filter migration_work evs = []"
    and "filter server_work evs = []"
  using assms by (auto simp: filter_empty_conv startup_work_def)

lemma handlers_append: "handlers (xs @ ys) = handlers xs @ handlers ys"
  by (induction xs rule: handlers.induct) simp_all

lemma handlers_no_server: "filter server_work evs = [] \<Longrightarrow> handlers evs = []"
  by (induction evs rule: handlers.induct) (simp_all split: if_splits)

lemma getopt_case_not_Running: "getopt_case w cmd opt s = (evs, Inl out) \<Longrightarrow> out \<noteq> Running"
  by (auto simp: getopt_case_def split: if_splits option.splits)

lemma getopt_loop_not_Running: "getopt_loop w cmd opts s = (evs, Inl out) \<Longrightarrow> out \<noteq> Running"
proof (induction opts arbitrary: s evs)
  case Nil
  then show ?case by simp
next
  case (Cons opt rest)
  then show ?case
    by (auto split: prod.splits sum.splits dest: getopt_case_not_Running)
qed

subsection \<open>What a successful resolution went through\<close>

lemma validate_Inr:
  assumes "validate w cmd s0 fs = (evs, Inr (baseDir, s, fs1))"
  shows "\<exists>b. base s0 = JStr b \<and> baseDir = path_resolve w b \<and>
    s = s0\<lparr>base := JStr baseDir\<rparr> \<and>
    getopt_optind w = length (argv w) \<and> listen s0 \<noteq> JUndefined \<and>
    mkdirp w fs baseDir = Some fs1 \<and> chdir w fs1 baseDir \<and>
    evs = [Mkdirp baseDir, Chdir baseDir]"
  using assms
  by (auto simp: validate_def Let_def split: jsval.splits if_splits option.splits)

lemma validate_Inl:
  assumes "validate w cmd s0 fs = (evs, Inl out)"
  shows "filter migration_work evs = [] \<and> filter server_work evs = [] \<and> out \<noteq> Running"
  using assms
  by (auto simp: validate_def Let_def split: jsval.splits if_splits option.splits)

lemma config_resolver_Inr:
  assumes "config_resolver w fs = (evs, Inr (cmd, baseDir, s, fs1))"
  shows "\<exists>evs0 s0 b. dollar0 w = Some cmd \<and>
    getopt_loop w cmd (getopt_results w) (initial_vars w) = (evs0, Inr s0) \<and>
    base s0 = JStr b \<and> baseDir = path_resolve w b \<and> s = s0\<lparr>base := JStr baseDir\<rparr> \<and>
    getopt_optind w = length (argv w) \<and> listen s0 \<noteq> JUndefined \<and>
    mkdirp w fs baseDir = Some fs1 \<and> chdir w fs1 baseDir \<and>
    evs = ProcessOn ''disconnect'' # SetRootDir (rootDir w) # evs0 @
            [Mkdirp baseDir, Chdir baseDir]"
proof -
  from assms obtain evs0 s0 evs1 where
    d: "dollar0 w = Some cmd" and
    l: "getopt_loop w cmd (getopt_results w) (initial_vars w) = (evs0, Inr s0)" and
    v: "validate w cmd s0 fs = (evs1, Inr (baseDir, s, fs1))" and
    e: "evs = ProcessOn ''disconnect'' # SetRootDir (rootDir w) # evs0 @ evs1"
    by (auto simp: config_resolver_def split: option.splits prod.splits sum.splits)
  from validate_Inr[OF v] d l e show ?thesis by auto
qed

lemma config_resolver_events:
  assumes "config_resolver w fs = (evs, r)"
  shows "filter migration_work evs = [] \<and> filter server_work evs = []"
proof -
  have loop: "filter migration_work evs0 = [] \<and> filter server_work evs0 = []"
    if "getopt_loop w cmd opts s0 = (evs0, r0)" for cmd opts s0 evs0 r0
    using no_work_filters[of evs0] getopt_loop_no_work[OF that] by blast
  have val: "filter migration_work evs1 = [] \<and> filter server_work evs1 = []"
    if "validate w cmd s0 fs = (evs1, r1)" for cmd s0 evs1 r1
    using that validate_Inl[of w cmd s0 fs evs1] validate_Inr[of w cmd s0 fs evs1]
    by (cases r1) auto
  show ?thesis
    using assms
    by (auto simp: config_resolver_def split: option.splits prod.splits sum.splits
        dest: loop val)
qed

lemma config_resolver_Inl:
  assumes "config_resolver w fs = (evs, Inl out)"
  shows "out \<noteq> Running"
  using assms
  by (auto simp: config_resolver_def split: option.splits prod.splits sum.splits
      dest: getopt_loop_not_Running validate_Inl)

lemma startPm_filters:
  "filter migration_work (startPm cmd baseDir s) = []"
  "filter server_work (startPm cmd baseDir s) = startPm cmd baseDir s"
  "handlers (startPm cmd baseDir s) = [''listening'']"
  by (simp_all add: startPm_def)

subsection \<open>Running the example\<close>

lemmas script_defs =
  main_def config_resolver_def validate_def backend_gate_def checkAndUpgradeDb_def
  memoryDbLocation_def env_or_def startPm_def dollar0_def initial_vars_def
  initial_basePort_def getopt_case_def js_of_def DRIVERS_get_def DRIVERS_def
  Object_prototype_def Let_def

lemmas example_defs =
  example_world_def failing_world_def basename_def flag_def with_arg_def invalid_def

lemma example_resolved:
  "config_resolver example_world fs =
     ([ProcessOn ''disconnect'', SetRootDir ''/opt/strong-pm'',
       Mkdirp ''/home/pm/.strong-pm'', Chdir ''/home/pm/.strong-pm''],
      Inr (''sl-pm'', ''/home/pm/.strong-pm'', example_vars,
           if ''/home/pm/.strong-pm'' \<in> set fs then fs else ''/home/pm/.strong-pm'' # fs))"
  by (simp add: script_defs example_defs example_vars_def)

lemma failing_resolved:
  "config_resolver failing_world fs =
     ([ProcessOn ''disconnect'', SetRootDir ''/opt/strong-pm'',
       Mkdirp ''/home/pm/.strong-pm'', Chdir ''/home/pm/.strong-pm''],
      Inr (''sl-pm'', ''/home/pm/.strong-pm'', example_vars,
           if ''/home/pm/.strong-pm'' \<in> set fs then fs else ''/home/pm/.strong-pm'' # fs))"
  by (simp add: script_defs example_defs example_vars_def)

lemma example_location:
  "memoryDbLocation example_world example_vars ''/home/pm/.strong-pm'' =
     ''/home/pm/.strong-pm/strong-pm.json''"
  "memoryDbLocation failing_world example_vars ''/home/pm/.strong-pm'' =
     ''/home/pm/.strong-pm/strong-pm.json''"
  by (simp_all add: memoryDbLocation_def env_or_def example_defs example_vars_def)

subsection \<open>What the option loop leaves in the variables\<close>

lemma getopt_loop_Cons_Inr:
  assumes "getopt_loop w cmd (opt # rest) s0 = (evs, Inr s)"
  shows "\<exists>evs1 s1 evs2. getopt_case w cmd opt s0 = (evs1, Inr s1) \<and>
    getopt_loop w cmd rest s1 = (evs2, Inr s) \<and> evs = evs1 @ evs2"
  using assms by (auto split: prod.splits sum.splits)

lemma getopt_case_dbDriver:
  "getopt_case w cmd opt s0 = (evs, Inr s) \<Longrightarrow>
   dbDriver s = (if option opt = ''M'' then ''memory'' else dbDriver s0)"
  by (auto simp: getopt_case_def split: if_splits option.splits)

lemma getopt_loop_dbDriver:
  "getopt_loop w cmd opts s0 = (evs, Inr s) \<Longrightarrow>
   dbDriver s = (if \<exists>opt \<in> set opts. option opt = ''M'' then ''memory'' else dbDriver s0)"
proof (induction opts arbitrary: s0 evs)
  case Nil
  then show ?case by simp
next
  case (Cons opt rest)
  from getopt_loop_Cons_Inr[OF Cons.prems] obtain evs1 s1 evs2 where
    c: "getopt_case w cmd opt s0 = (evs1, Inr s1)" and
    l: "getopt_loop w cmd rest s1 = (evs2, Inr s)" by blast
  from Cons.IH[OF l] getopt_case_dbDriver[OF c] show ?case by auto
qed

lemma getopt_case_listen:
  "getopt_case w cmd opt s0 = (evs, Inr s) \<Longrightarrow>
   listen s = (if option opt = ''l'' then js_of (optarg opt) else listen s0)"
  by (auto simp: getopt_case_def split: if_splits option.splits)

lemma getopt_loop_listen_default:
  "getopt_loop w cmd opts s0 = (evs, Inr s) \<Longrightarrow>
   \<not> (\<exists>opt \<in> set opts. option opt = ''l'') \<Longrightarrow> listen s = listen s0"
proof (induction opts arbitrary: s0 evs)
  case Nil
  then show ?case by simp
next
  case (Cons opt rest)
  from getopt_loop_Cons_Inr[OF Cons.prems(1)] obtain evs1 s1 evs2 where
    c: "getopt_case w cmd opt s0 = (evs1, Inr s1)" and
    l: "getopt_loop w cmd rest s1 = (evs2, Inr s)" by blast
  from Cons.prems(2) have "option opt \<noteq> ''l''" "\<not> (\<exists>opt \<in> set rest. option opt = ''l'')"
    by auto
  with Cons.IH[OF l] getopt_case_listen[OF c] show ?case by simp
qed

lemma getopt_loop_listen_set:
  "getopt_loop w cmd opts s0 = (evs, Inr s) \<Longrightarrow> list_all with_argument opts \<Longrightarrow>
   listen s0 \<noteq> JUndefined \<Longrightarrow> listen s \<noteq> JUndefined"
proof (induction opts arbitrary: s0 evs)
  case Nil
  then show ?case by simp
next
  case (Cons opt rest)
  from getopt_loop_Cons_Inr[OF Cons.prems(1)] obtain evs1 s1 evs2 where
    c: "getopt_case w cmd opt s0 = (evs1, Inr s1)" and
    l: "getopt_loop w cmd rest s1 = (evs2, Inr s)" by blast
  from Cons.prems(2) have wa: "with_argument opt" "list_all with_argument rest" by simp_all
  have "listen s1 \<noteq> JUndefined"
    using getopt_case_listen[OF c] wa(1) Cons.prems(3)
    by (auto simp: with_argument_def takes_argument_def js_of_def split: if_splits)
  from Cons.IH[OF l wa(2) this] show ?case .
qed

lemma getopt_case_base:
  "getopt_case w cmd opt s0 = (evs, Inr s) \<Longrightarrow>
   base s = (if option opt = ''b'' then js_of (optarg opt) else base s0)"
  by (auto simp: getopt_case_def split: if_splits option.splits)

lemma getopt_loop_base_string:
  "getopt_loop w cmd opts s0 = (evs, Inr s) \<Longrightarrow> list_all with_argument opts \<Longrightarrow>
   \<exists>b. base s0 = JStr b \<Longrightarrow> \<exists>b. base s = JStr b"
proof (induction opts arbitrary: s0 evs)
  case Nil
  then show ?case by simp
next
  case (Cons opt rest)
  from getopt_loop_Cons_Inr[OF Cons.prems(1)] obtain evs1 s1 evs2 where
    c: "getopt_case w cmd opt s0 = (evs1, Inr s1)" and
    l: "getopt_loop w cmd rest s1 = (evs2, Inr s)" by blast
  from Cons.prems(2) have wa: "with_argument opt" "list_all with_argument rest" by simp_all
  have "\<exists>b. base s1 = JStr b"
    using getopt_case_base[OF c] wa(1) Cons.prems(3)
    by (auto simp: with_argument_def takes_argument_def js_of_def split: if_splits)
  from Cons.IH[OF l wa(2) this] show ?case .
qed

subsection \<open>The handlers a run registers\<close>

lemma backend_gate_handlers:
  "backend_gate w cmd baseDir s fs = (evs, out, fs') \<Longrightarrow>
   handlers evs = (if out = Running then [''listening''] else [])"
  by (auto simp: backend_gate_def checkAndUpgradeDb_def Let_def handlers_append startPm_filters
      split: if_splits prod.splits option.splits)

lemma main_handlers:
  "handlers (fst (main w fs)) = (if fst (snd (main w fs)) = Running then [''listening''] else [])"
proof -
  obtain evs r where cr: "config_resolver w fs = (evs, r)" by (cases "config_resolver w fs")
  from config_resolver_events[OF cr] have h: "handlers evs = []"
    by (simp add: handlers_no_server)
  show ?thesis
  proof (cases r)
    case (Inl out)
    with cr config_resolver_Inl[of w fs evs out] h show ?thesis by (simp add: main_def)
  next
    case (Inr t)
    obtain cmd baseDir s fs1 where t: "t = (cmd, baseDir, s, fs1)" by (cases t)
    obtain evs' out fs2 where g: "backend_gate w cmd baseDir s fs1 = (evs', out, fs2)"
      by (cases "backend_gate w cmd baseDir s fs1")
    from cr Inr t g have "main w fs = (evs @ evs', out, fs2)" by (simp add: main_def)
    with h backend_gate_handlers[OF g] show ?thesis by (simp add: handlers_append)
  qed
qed

subsection \<open>The backend that a run selects\<close>

lemma selected_backend:
  assumes "config_resolver w fs = (evs, Inr (cmd, baseDir, s, fs1))"
  shows "dbDriver s =
    (if \<exists>opt \<in> set (getopt_results w). option opt = ''M'' then ''memory'' else ''sqlite3'')"
proof -
  from config_resolver_Inr[OF assms] obtain evs0 s0 where
    l: "getopt_loop w cmd (getopt_results w) (initial_vars w) = (evs0, Inr s0)" and
    s: "s = s0\<lparr>base := JStr baseDir\<rparr>" by blast
  from getopt_loop_dbDriver[OF l] s show ?thesis by (simp add: initial_vars_def)
qed

lemma json_resolved:
  "config_resolver json_world fs =
     ([ProcessOn ''disconnect'', SetRootDir ''/opt/strong-pm'',
       Mkdirp ''/home/pm/.strong-pm'', Chdir ''/home/pm/.strong-pm''],
      Inr (''sl-pm'', ''/home/pm/.strong-pm'', example_vars\<lparr>dbDriver := ''memory''\<rparr>,
           if ''/home/pm/.strong-pm'' \<in> set fs then fs else ''/home/pm/.strong-pm'' # fs))"
  by (simp add: script_defs example_defs json_world_def example_vars_def)

section \<open>The claims\<close>

subsection \<open>The backend gate\<close>

text \<open>
  C1. When the configuration has been resolved, the primary backend is selected
  (\<open>dbDriver\<close> is \<open>sqlite3\<close>) and \<open>fs.stat\<close> finds the legacy JSON file at its
  location, the run calls the migration routine exactly once, with the base directory,
  that location and \<open>dryRun = false\<close>. When the routine calls back without an error
  the run goes on with \<open>startPm\<close>; when it calls back with an error the run logs
  \<open>$0\<close>, the process id and the error's message, exits with status 1, and does no
  work on the server.
\<close>

theorem migration_before_bootstrap:
  assumes "config_resolver w fs = (evs, Inr (cmd, baseDir, s, fs1))"
    and "dbDriver s = ''sqlite3''"
    and "fs_stat w fs1 (memoryDbLocation w s baseDir)"
  shows "filter migration_work (fst (main w fs)) =
           [UpgradeDb baseDir (memoryDbLocation w s baseDir) False] \<and>
         (case fst (upgradeDb w fs1 baseDir (memoryDbLocation w s baseDir) False) of
            None \<Rightarrow>
              fst (main w fs) =
                evs @ [FsStat (memoryDbLocation w s baseDir),
                       UpgradeDb baseDir (memoryDbLocation w s baseDir) False] @
                startPm cmd baseDir s \<and>
              fst (snd (main w fs)) = Running
          | Some err \<Rightarrow>
              fst (main w fs) =
                evs @ [FsStat (memoryDbLocation w s baseDir),
                       UpgradeDb baseDir (memoryDbLocation w s baseDir) False,
                       GError ''%s(%d) %s''
                         [JStr cmd, JNum (process_pid w), JStr (message err)]] \<and>
              fst (snd (main w fs)) = Exit 1 \<and>
              filter server_work (fst (main w fs)) = [])"
proof -
  obtain err fs2 where
    u: "upgradeDb w fs1 baseDir (memoryDbLocation w s baseDir) False = (err, fs2)"
    by (cases "upgradeDb w fs1 baseDir (memoryDbLocation w s baseDir) False")
  from config_resolver_events[OF assms(1)]
  have quiet: "filter migration_work evs = []" "filter server_work evs = []" by simp_all
  show ?thesis
  proof (cases err)
    case None
    with assms u have "main w fs =
      (evs @ [FsStat (memoryDbLocation w s baseDir),
              UpgradeDb baseDir (memoryDbLocation w s baseDir) False] @ startPm cmd baseDir s,
       Running, fs2)"
      by (simp add: main_def backend_gate_def checkAndUpgradeDb_def Let_def)
    with None u quiet show ?thesis by (simp add: startPm_filters)
  next
    case (Some e)
    with assms u have "main w fs =
      (evs @ [FsStat (memoryDbLocation w s baseDir),
              UpgradeDb baseDir (memoryDbLocation w s baseDir) False,
              GError ''%s(%d) %s'' [JStr cmd, JNum (process_pid w), JStr (message e)]],
       Exit 1, fs2)"
      by (simp add: main_def backend_gate_def checkAndUpgradeDb_def Let_def)
    with Some u quiet show ?thesis by simp
  qed
qed

text \<open>
  The run of \<open>sl-pm\<close> without options, with the legacy file in the base directory:
  once with a migration that succeeds and once with one that fails.
\<close>

theorem migration_before_bootstrap_witness:
  "filter migration_work (fst (main example_world [''/home/pm/.strong-pm/strong-pm.json''])) =
     [UpgradeDb ''/home/pm/.strong-pm'' ''/home/pm/.strong-pm/strong-pm.json'' False] \<and>
   fst (snd (main example_world [''/home/pm/.strong-pm/strong-pm.json''])) = Running \<and>
   filter migration_work (fst (main failing_world [''/home/pm/.strong-pm/strong-pm.json''])) =
     [UpgradeDb ''/home/pm/.strong-pm'' ''/home/pm/.strong-pm/strong-pm.json'' False] \<and>
   fst (snd (main failing_world [''/home/pm/.strong-pm/strong-pm.json''])) = Exit 1 \<and>
   last (fst (main failing_world [''/home/pm/.strong-pm/strong-pm.json''])) =
     GError ''%s(%d) %s'' [JStr ''sl-pm'', JNum 4242, JStr ''corrupt''] \<and>
   filter server_work (fst (main failing_world [''/home/pm/.strong-pm/strong-pm.json''])) = []"
proof -
  let ?fs = "[''/home/pm/.strong-pm/strong-pm.json'']"
  let ?fs1 = "[''/home/pm/.strong-pm'', ''/home/pm/.strong-pm/strong-pm.json'']"
  have r: "config_resolver example_world ?fs =
      ([ProcessOn ''disconnect'', SetRootDir ''/opt/strong-pm'',
        Mkdirp ''/home/pm/.strong-pm'', Chdir ''/home/pm/.strong-pm''],
       Inr (''sl-pm'', ''/home/pm/.strong-pm'', example_vars, ?fs1))"
    "config_resolver failing_world ?fs =
      ([ProcessOn ''disconnect'', SetRootDir ''/opt/strong-pm'',
        Mkdirp ''/home/pm/.strong-pm'', Chdir ''/home/pm/.strong-pm''],
       Inr (''sl-pm'', ''/home/pm/.strong-pm'', example_vars, ?fs1))"
    by (simp_all add: example_resolved failing_resolved)
  have d: "dbDriver example_vars = ''sqlite3''" by (simp add: example_vars_def)
  have st:
    "fs_stat example_world ?fs1
       (memoryDbLocation example_world example_vars ''/home/pm/.strong-pm'')"
    "fs_stat failing_world ?fs1
       (memoryDbLocation failing_world example_vars ''/home/pm/.strong-pm'')"
    by (simp_all add: example_location) (simp_all add: example_defs)
  have u:
    "fst (upgradeDb example_world ?fs1 ''/home/pm/.strong-pm''
            ''/home/pm/.strong-pm/strong-pm.json'' False) = None"
    "fst (upgradeDb failing_world ?fs1 ''/home/pm/.strong-pm''
            ''/home/pm/.strong-pm/strong-pm.json'' False) = Some \<lparr> message = ''corrupt'' \<rparr>"
    "process_pid failing_world = 4242"
    by (simp_all add: example_defs)
  show ?thesis
    using migration_before_bootstrap [OF r(1) d st(1)]
      migration_before_bootstrap [OF r(2) d st(2)]
    by (simp add: example_location u startPm_filters)
qed

text \<open>
  C2. When the configuration has been resolved, the parser has returned the option
  \<open>M\<close> (\<open>--json-file-db\<close>) and \<open>fs.stat\<close> finds a file at \<open>strong-mesh.db\<close> in the
  base directory, the run logs the diagnostic that asks to delete that file, with
  \<open>$0\<close>, the process id and the path, and exits with status 1; it never constructs
  the server and never calls the migration routine.
\<close>

theorem legacy_backend_conflict:
  assumes "config_resolver w fs = (evs, Inr (cmd, baseDir, s, fs1))"
    and "\<exists>opt \<in> set (getopt_results w). option opt = ''M''"
    and "fs_stat w fs1 (path_join w baseDir ''strong-mesh.db'')"
  shows "main w fs =
           (evs @ [FsStat (path_join w baseDir ''strong-mesh.db''),
                   GError (''%s(%d) {{SQLite3}} database found at %s. Please delete this'' @
                           ''file if you wish to use the {{JSON}} file database.'')
                     [JStr cmd, JNum (process_pid w),
                      JStr (path_join w baseDir ''strong-mesh.db'')]],
            Exit 1, fs1) \<and>
         filter server_work (fst (main w fs)) = [] \<and>
         filter migration_work (fst (main w fs)) = []"
proof -
  from config_resolver_events[OF assms(1)]
  have quiet: "filter migration_work evs = []" "filter server_work evs = []" by simp_all
  from selected_backend[OF assms(1)] assms(2) have "dbDriver s = ''memory''" by simp
  with assms have "main w fs =
           (evs @ [FsStat (path_join w baseDir ''strong-mesh.db''),
                   GError (''%s(%d) {{SQLite3}} database found at %s. Please delete this'' @
                           ''file if you wish to use the {{JSON}} file database.'')
                     [JStr cmd, JNum (process_pid w),
                      JStr (path_join w baseDir ''strong-mesh.db'')]],
            Exit 1, fs1)"
    by (simp add: main_def backend_gate_def Let_def)
  with quiet show ?thesis by simp
qed

text \<open>The run of \<open>sl-pm --json-file-db\<close> with \<open>strong-mesh.db\<close> in the base directory.\<close>

theorem legacy_backend_conflict_witness:
  "main json_world [''/home/pm/.strong-pm/strong-mesh.db''] =
     ([ProcessOn ''disconnect'', SetRootDir ''/opt/strong-pm'',
       Mkdirp ''/home/pm/.strong-pm'', Chdir ''/home/pm/.strong-pm'',
       FsStat ''/home/pm/.strong-pm/strong-mesh.db'',
       GError (''%s(%d) {{SQLite3}} database found at %s. Please delete this'' @
               ''file if you wish to use the {{JSON}} file database.'')
         [JStr ''sl-pm'', JNum 4242, JStr ''/home/pm/.strong-pm/strong-mesh.db'']],
      Exit 1, [''/home/pm/.strong-pm'', ''/home/pm/.strong-pm/strong-mesh.db'']) \<and>
   filter server_work (fst (main json_world [''/home/pm/.strong-pm/strong-mesh.db''])) = []"
proof -
  let ?fs = "[''/home/pm/.strong-pm/strong-mesh.db'']"
  let ?fs1 = "[''/home/pm/.strong-pm'', ''/home/pm/.strong-pm/strong-mesh.db'']"
  have r: "config_resolver json_world ?fs =
      ([ProcessOn ''disconnect'', SetRootDir ''/opt/strong-pm'',
        Mkdirp ''/home/pm/.strong-pm'', Chdir ''/home/pm/.strong-pm''],
       Inr (''sl-pm'', ''/home/pm/.strong-pm'', example_vars\<lparr>dbDriver := ''memory''\<rparr>, ?fs1))"
    by (simp add: json_resolved)
  have m: "\<exists>opt \<in> set (getopt_results json_world). option opt = ''M''"
    by (simp add: json_world_def flag_def)
  have p: "path_join json_world ''/home/pm/.strong-pm'' ''strong-mesh.db'' =
      ''/home/pm/.strong-pm/strong-mesh.db''" "process_pid json_world = 4242"
    by (simp_all add: json_world_def example_defs)
  have st:
    "fs_stat json_world ?fs1 (path_join json_world ''/home/pm/.strong-pm'' ''strong-mesh.db'')"
    by (simp add: p) (simp add: json_world_def example_defs)
  show ?thesis
    using legacy_backend_conflict [OF r m st] by (simp add: p)
qed

text \<open>
  C8. When the configuration has been resolved, the primary backend is selected and
  \<open>fs.stat\<close> fails on the location of the legacy file (\<open>STRONGLOOP_MESH_DB\<close> when
  it is set and not empty, \<open>strong-pm.json\<close> in the base directory otherwise), the run
  goes from the probe straight to \<open>startPm\<close> and calls the migration routine zero
  times. Hence, when the gate has run and the legacy file is absent from the file
  system it left, running the gate again on that file system probes, migrates nothing,
  leaves the file system as it is and goes to \<open>startPm\<close> with the same variables.
\<close>

theorem absent_legacy_file_skips_migration:
  assumes "config_resolver w fs = (evs, Inr (cmd, baseDir, s, fs1))"
    and "dbDriver s = ''sqlite3''"
  shows "(\<not> fs_stat w fs1 (memoryDbLocation w s baseDir) \<longrightarrow>
            main w fs =
              (evs @ FsStat (memoryDbLocation w s baseDir) # startPm cmd baseDir s,
               Running, fs1) \<and>
            filter migration_work (fst (main w fs)) = []) \<and>
         (backend_gate w cmd baseDir s fs1 = (evs1, Running, fs2) \<and>
            \<not> fs_stat w fs2 (memoryDbLocation w s baseDir) \<longrightarrow>
            backend_gate w cmd baseDir s fs2 =
              (FsStat (memoryDbLocation w s baseDir) # startPm cmd baseDir s, Running, fs2) \<and>
            filter migration_work (fst (backend_gate w cmd baseDir s fs2)) = [])"
proof -
  from config_resolver_events[OF assms(1)]
  have quiet: "filter migration_work evs = []" by simp
  have gate: "backend_gate w cmd baseDir s fs' =
      (FsStat (memoryDbLocation w s baseDir) # startPm cmd baseDir s, Running, fs')"
    if "\<not> fs_stat w fs' (memoryDbLocation w s baseDir)" for fs'
    using that assms(2) by (simp add: backend_gate_def checkAndUpgradeDb_def Let_def)
  have first: "main w fs =
      (evs @ FsStat (memoryDbLocation w s baseDir) # startPm cmd baseDir s, Running, fs1) \<and>
      filter migration_work (fst (main w fs)) = []"
    if "\<not> fs_stat w fs1 (memoryDbLocation w s baseDir)"
    using gate[OF that] assms(1) quiet by (simp add: main_def startPm_filters)
  have again: "backend_gate w cmd baseDir s fs2 =
      (FsStat (memoryDbLocation w s baseDir) # startPm cmd baseDir s, Running, fs2) \<and>
      filter migration_work (fst (backend_gate w cmd baseDir s fs2)) = []"
    if "\<not> fs_stat w fs2 (memoryDbLocation w s baseDir)" for fs2
    using gate[OF that] by (simp add: startPm_filters)
  from first again show ?thesis by blast
qed

text \<open>
  The run of \<open>sl-pm\<close> without options in an empty file system; and the gate run twice,
  first with the legacy file present (it migrates, and the migration removes the file),
  then on the file system that the first run left.
\<close>

theorem absent_legacy_file_skips_migration_witness:
  "main example_world [] =
     ([ProcessOn ''disconnect'', SetRootDir ''/opt/strong-pm'',
       Mkdirp ''/home/pm/.strong-pm'', Chdir ''/home/pm/.strong-pm'',
       FsStat ''/home/pm/.strong-pm/strong-pm.json''] @
      startPm ''sl-pm'' ''/home/pm/.strong-pm'' example_vars,
      Running, [''/home/pm/.strong-pm'']) \<and>
   filter migration_work (fst (main example_world [])) = [] \<and>
   backend_gate example_world ''sl-pm'' ''/home/pm/.strong-pm'' example_vars
     [''/home/pm/.strong-pm'', ''/home/pm/.strong-pm/strong-pm.json''] =
     ([FsStat ''/home/pm/.strong-pm/strong-pm.json'',
       UpgradeDb ''/home/pm/.strong-pm'' ''/home/pm/.strong-pm/strong-pm.json'' False] @
      startPm ''sl-pm'' ''/home/pm/.strong-pm'' example_vars,
      Running, [''/home/pm/.strong-pm'']) \<and>
   backend_gate example_world ''sl-pm'' ''/home/pm/.strong-pm'' example_vars
     [''/home/pm/.strong-pm''] =
     (FsStat ''/home/pm/.strong-pm/strong-pm.json'' #
      startPm ''sl-pm'' ''/home/pm/.strong-pm'' example_vars,
      Running, [''/home/pm/.strong-pm''])"
proof -
  let ?fs1 = "[''/home/pm/.strong-pm'', ''/home/pm/.strong-pm/strong-pm.json'']"
  let ?fs2 = "[''/home/pm/.strong-pm'']"
  have r0: "config_resolver example_world [] =
      ([ProcessOn ''disconnect'', SetRootDir ''/opt/strong-pm'',
        Mkdirp ''/home/pm/.strong-pm'', Chdir ''/home/pm/.strong-pm''],
       Inr (''sl-pm'', ''/home/pm/.strong-pm'', example_vars, ?fs2))"
    by (simp add: example_resolved)
  have r1: "config_resolver example_world [''/home/pm/.strong-pm/strong-pm.json''] =
      ([ProcessOn ''disconnect'', SetRootDir ''/opt/strong-pm'',
        Mkdirp ''/home/pm/.strong-pm'', Chdir ''/home/pm/.strong-pm''],
       Inr (''sl-pm'', ''/home/pm/.strong-pm'', example_vars, ?fs1))"
    by (simp add: example_resolved)
  have d: "dbDriver example_vars = ''sqlite3''" by (simp add: example_vars_def)
  have absent: "\<not> fs_stat example_world ?fs2
      (memoryDbLocation example_world example_vars ''/home/pm/.strong-pm'')"
    by (simp add: example_location) (simp add: example_defs)
  have migrated: "backend_gate example_world ''sl-pm'' ''/home/pm/.strong-pm'' example_vars ?fs1 =
     ([FsStat ''/home/pm/.strong-pm/strong-pm.json'',
       UpgradeDb ''/home/pm/.strong-pm'' ''/home/pm/.strong-pm/strong-pm.json'' False] @
      startPm ''sl-pm'' ''/home/pm/.strong-pm'' example_vars,
      Running, ?fs2)"
    by (simp add: backend_gate_def checkAndUpgradeDb_def example_location d Let_def)
      (simp add: example_defs)
  from absent_legacy_file_skips_migration [OF r0 d, of "[]" ?fs2] absent
  have first: "main example_world [] =
     ([ProcessOn ''disconnect'', SetRootDir ''/opt/strong-pm'',
       Mkdirp ''/home/pm/.strong-pm'', Chdir ''/home/pm/.strong-pm'',
       FsStat ''/home/pm/.strong-pm/strong-pm.json''] @
      startPm ''sl-pm'' ''/home/pm/.strong-pm'' example_vars,
      Running, ?fs2) \<and>
   filter migration_work (fst (main example_world [])) = []"
    by (simp add: example_location startPm_filters)
  from absent_legacy_file_skips_migration
         [OF r1 d, of "[FsStat ''/home/pm/.strong-pm/strong-pm.json'',
             UpgradeDb ''/home/pm/.strong-pm'' ''/home/pm/.strong-pm/strong-pm.json'' False] @
            startPm ''sl-pm'' ''/home/pm/.strong-pm'' example_vars" ?fs2]
       migrated absent
  have again: "backend_gate example_world ''sl-pm'' ''/home/pm/.strong-pm'' example_vars ?fs2 =
     (FsStat ''/home/pm/.strong-pm/strong-pm.json'' #
      startPm ''sl-pm'' ''/home/pm/.strong-pm'' example_vars,
      Running, ?fs2)"
    by (simp add: example_location)
  from first migrated again show ?thesis by (simp add: startPm_filters)
qed

subsection \<open>The driver registry\<close>

lemma DRIVERS_docker: "DRIVERS_get ''docker'' = Module DockerDriver"
  by (simp add: DRIVERS_get_def DRIVERS_def)

lemma DRIVERS_direct: "DRIVERS_get ''direct'' = Module DirectDriver"
  by (simp add: DRIVERS_get_def DRIVERS_def)

lemma dom_DRIVERS: "dom DRIVERS = {''direct'', ''docker''}"
  by (auto simp: DRIVERS_def split: if_splits)

text \<open>
  C6. The registry has the two keys \<open>direct\<close> and \<open>docker\<close>, and the option \<open>d\<close>
  looks the lower-cased name up: for every name whose lower-casing is \<open>docker\<close> the
  variable \<open>driver\<close> becomes the docker driver, and for every name whose lower-casing
  is \<open>direct\<close> it becomes the direct driver.
\<close>

theorem driver_lookup_case_insensitive:
  "(toLowerCase name = ''docker'' \<longrightarrow>
      getopt_case w cmd \<lparr> option = ''d'', optarg = Some name, optopt = oo \<rparr> s =
        ([], Inr (s\<lparr>driver := Module DockerDriver\<rparr>))) \<and>
   (toLowerCase name = ''direct'' \<longrightarrow>
      getopt_case w cmd \<lparr> option = ''d'', optarg = Some name, optopt = oo \<rparr> s =
        ([], Inr (s\<lparr>driver := Module DirectDriver\<rparr>))) \<and>
   dom DRIVERS = {''direct'', ''docker''}"
proof -
  have "getopt_case w cmd \<lparr> option = ''d'', optarg = Some name, optopt = oo \<rparr> s =
      ([], Inr (s\<lparr>driver := DRIVERS_get (toLowerCase name)\<rparr>))"
    by (simp add: getopt_case_def)
  then show ?thesis
    by (simp add: DRIVERS_docker DRIVERS_direct dom_DRIVERS)
qed

text \<open>The names \<open>Docker\<close>, \<open>docker\<close>, \<open>DOCKER\<close> and \<open>Direct\<close>.\<close>

theorem driver_lookup_case_insensitive_witness:
  "driver (projr (snd (getopt_case example_world ''sl-pm'' (with_arg ''d'' ''Docker'')
      (initial_vars example_world)))) = Module DockerDriver \<and>
   driver (projr (snd (getopt_case example_world ''sl-pm'' (with_arg ''d'' ''docker'')
      (initial_vars example_world)))) = Module DockerDriver \<and>
   driver (projr (snd (getopt_case example_world ''sl-pm'' (with_arg ''d'' ''DOCKER'')
      (initial_vars example_world)))) = Module DockerDriver \<and>
   driver (projr (snd (getopt_case example_world ''sl-pm'' (with_arg ''d'' ''Direct'')
      (initial_vars example_world)))) = Module DirectDriver"
proof -
  have l: "toLowerCase ''Docker'' = ''docker''" "toLowerCase ''docker'' = ''docker''"
    "toLowerCase ''DOCKER'' = ''docker''" "toLowerCase ''Direct'' = ''direct''"
    by code_simp+
  show ?thesis
    using
      driver_lookup_case_insensitive
        [of "''Docker''" example_world "''sl-pm''" None "initial_vars example_world"]
      driver_lookup_case_insensitive
        [of "''docker''" example_world "''sl-pm''" None "initial_vars example_world"]
      driver_lookup_case_insensitive
        [of "''DOCKER''" example_world "''sl-pm''" None "initial_vars example_world"]
      driver_lookup_case_insensitive
        [of "''Direct''" example_world "''sl-pm''" None "initial_vars example_world"]
    by (simp add: l with_arg_def)
qed

subsection \<open>The bootstrapper\<close>

text \<open>
  C9. The handler for \<open>listening\<close> logs three lines, in this order: \<open>$0\<close>, the
  process id, the versions of the manager and of its API and the port of the address it
  receives; \<open>$0\<close>, the process id and the base directory; \<open>$0\<close>, the process id and the
  base port, for the ports of the applications. \<open>startPm\<close> registers a handler for
  \<open>listening\<close> and for no other event of the server, and so does every run that gets
  to the server; a run that ends before registers none.
\<close>

theorem listening_emits_three_diagnostics:
  "on_listening w cmd baseDir s port =
     [GLog ''%s(%d): {{StrongLoop PM}} v%s (API v%s) on port `%s`''
        [JStr cmd, JNum (process_pid w), JStr (versionPm w), JStr (versionApi w), port],
      GLog ''%s(%d): Base folder `%s`'' [JStr cmd, JNum (process_pid w), JStr baseDir],
      GLog ''%s(%d): Applications on port `%d + service ID`''
        [JStr cmd, JNum (process_pid w), basePort s]] \<and>
   handlers (startPm cmd baseDir s) = [''listening''] \<and>
   handlers (fst (main w fs)) =
     (if fst (snd (main w fs)) = Running then [''listening''] else [])"
proof -
  have "handlers (startPm cmd baseDir s) = [''listening'']"
    by (simp add: startPm_def)
  then show ?thesis
    using main_handlers[of w fs] by (simp add: on_listening_def)
qed

subsection \<open>Runs that end in the resolver\<close>

lemma main_after_loop:
  assumes "dollar0 w = Some cmd"
    and "getopt_loop w cmd (getopt_results w) (initial_vars w) = (evs, Inr s)"
    and "validate w cmd s fs = (evs', Inl out)"
  shows "main w fs = (ProcessOn ''disconnect'' # SetRootDir (rootDir w) # evs @ evs', out, fs)"
  using assms by (simp add: main_def config_resolver_def)

lemma main_in_loop:
  assumes "dollar0 w = Some cmd"
    and "getopt_loop w cmd (getopt_results w) (initial_vars w) = (evs, Inl out)"
  shows "main w fs = (ProcessOn ''disconnect'' # SetRootDir (rootDir w) # evs, out, fs)"
  using assms by (simp add: main_def config_resolver_def)

lemma loop_work: "getopt_loop w cmd opts s0 = (evs, r) \<Longrightarrow> filter startup_work evs = []"
  using getopt_loop_no_work by (fastforce simp: filter_empty_conv)

subsection \<open>The configuration resolver\<close>

text \<open>
  C3. When the option loop has run to its end and has left \<open>listen\<close> undefined (and
  \<open>base\<close> a string, which \<open>path.resolve\<close> takes), the run logs a usage diagnostic
  and exits with status 1: the one for extra arguments when \<open>parser.optind()\<close> is not
  the length of the argument vector, the one for the listen port otherwise. Up to the
  exit it has done no work on the file system (no \<open>mkdirp\<close>, \<open>chdir\<close> or \<open>fs.stat\<close>),
  no migration and no work on the server.
\<close>

theorem null_listen_is_usage_error:
  assumes "dollar0 w = Some cmd"
    and "getopt_loop w cmd (getopt_results w) (initial_vars w) = (evs, Inr s)"
    and "listen s = JUndefined"
    and "base s = JStr b"
  shows "main w fs =
           (ProcessOn ''disconnect'' # SetRootDir (rootDir w) # evs @
              [GError (if getopt_optind w \<noteq> length (argv w)
                       then ''Invalid usage (extra arguments), try `{{%s --help}}`.''
                       else ''Listen port was not specified, try `{{%s --help}}`.'')
                 [JStr cmd]],
            Exit 1, fs) \<and>
         filter startup_work (fst (main w fs)) = []"
proof -
  from assms(3,4) have "validate w cmd s fs =
      ([GError (if getopt_optind w \<noteq> length (argv w)
                then ''Invalid usage (extra arguments), try `{{%s --help}}`.''
                else ''Listen port was not specified, try `{{%s --help}}`.'')
          [JStr cmd]],
       Inl (Exit 1))"
    by (simp add: validate_def Let_def)
  from main_after_loop[OF assms(1,2) this] loop_work[OF assms(2)]
  show ?thesis by (simp add: startup_work_def)
qed

text \<open>A run in which the parser returns \<open>l\<close> without an argument.\<close>

theorem null_listen_is_usage_error_witness:
  "main null_listen_world [] =
     ([ProcessOn ''disconnect'', SetRootDir ''/opt/strong-pm'',
       GError ''Listen port was not specified, try `{{%s --help}}`.'' [JStr ''sl-pm'']],
      Exit 1, []) \<and>
   filter startup_work (fst (main null_listen_world [])) = []"
proof -
  have d: "dollar0 null_listen_world = Some ''sl-pm''"
    by (simp add: dollar0_def example_defs null_listen_world_def)
  have l: "getopt_loop null_listen_world ''sl-pm'' (getopt_results null_listen_world)
      (initial_vars null_listen_world) = ([], Inr (example_vars\<lparr>listen := JUndefined\<rparr>))"
    by (simp add: script_defs example_defs null_listen_world_def example_vars_def)
  have n: "listen (example_vars\<lparr>listen := JUndefined\<rparr>) = JUndefined" by simp
  have b: "base (example_vars\<lparr>listen := JUndefined\<rparr>) = JStr ''/home/pm/.strong-pm''"
    by (simp add: example_vars_def)
  have a: "getopt_optind null_listen_world = length (argv null_listen_world)"
    "rootDir null_listen_world = ''/opt/strong-pm''"
    by (simp_all add: example_defs null_listen_world_def)
  show ?thesis
    using null_listen_is_usage_error [OF d l n b, of "[]"] by (simp add: a startup_work_def)
qed

lemma getopt_case_continues:
  "continues opt \<Longrightarrow> \<exists>evs s. getopt_case w cmd opt s0 = (evs, Inr s)"
  by (auto simp: continues_def recognized_def with_argument_def takes_argument_def
      getopt_case_def split: option.splits)

lemma getopt_loop_continues:
  "list_all continues opts \<Longrightarrow> \<exists>evs s. getopt_loop w cmd opts s0 = (evs, Inr s)"
proof (induction opts arbitrary: s0)
  case Nil
  then show ?case by simp
next
  case (Cons opt rest)
  from Cons.prems have c: "continues opt" and r: "list_all continues rest" by simp_all
  from getopt_case_continues[OF c] obtain evs1 s1 where
    c1: "getopt_case w cmd opt s0 = (evs1, Inr s1)" by blast
  from Cons.IH[OF r] obtain evs2 s2 where
    l: "getopt_loop w cmd rest s1 = (evs2, Inr s2)" by blast
  from c1 l show ?case by simp
qed

lemma continues_with_argument: "list_all continues opts \<Longrightarrow> list_all with_argument opts"
  by (induction opts) (simp_all add: continues_def)

lemma getopt_loop_append:
  "getopt_loop w cmd pre s0 = (evs, Inr s) \<Longrightarrow>
   getopt_loop w cmd (pre @ post) s0 =
     (case getopt_loop w cmd post s of (evs', r) \<Rightarrow> (evs @ evs', r))"
proof (induction pre arbitrary: s0 evs)
  case Nil
  then show ?case by (simp split: prod.splits)
next
  case (Cons opt rest)
  from getopt_loop_Cons_Inr[OF Cons.prems] obtain evs1 s1 evs2 where
    c: "getopt_case w cmd opt s0 = (evs1, Inr s1)" and
    l: "getopt_loop w cmd rest s1 = (evs2, Inr s)" and e: "evs = evs1 @ evs2" by blast
  from Cons.IH[OF l] c e show ?case by (simp split: prod.splits)
qed

lemma getopt_case_unrecognized:
  "\<not> recognized (option opt) \<Longrightarrow>
   getopt_case w cmd opt s =
     ([GError ''Invalid usage (near option '%s'), try `{{%s --help}}`.''
         [js_of (optopt opt), JStr cmd]],
      Inl (Exit 1))"
  by (simp add: recognized_def getopt_case_def)

lemma initial_base: "\<exists>b. base (initial_vars w) = JStr b"
  by (simp add: initial_vars_def)

text \<open>
  C5, as amended. When every option that the parser returns before the first
  unrecognized one lets the loop go on (it is one of the ten, it is neither the version
  nor the help option, and it has its argument when it takes one), the run exits with
  status 1, and the last thing it does before is to log the usage diagnostic with
  \<open>optopt\<close>, the offending option, and \<open>$0\<close>. When every option that the parser
  returns lets the loop go on and \<open>parser.optind()\<close> is not the length of the argument
  vector, the run exits with status 1 after the diagnostic for extra arguments, which
  holds \<open>$0\<close> only. In both cases the run does no work on the file system, no migration
  and no work on the server, and leaves the file system as it was.
\<close>

theorem usage_errors_do_no_work:
  "(dollar0 w = Some cmd \<and> getopt_results w = pre @ opt # post \<and>
    list_all continues pre \<and> \<not> recognized (option opt) \<longrightarrow>
      fst (snd (main w fs)) = Exit 1 \<and>
      last (fst (main w fs)) =
        GError ''Invalid usage (near option '%s'), try `{{%s --help}}`.''
          [js_of (optopt opt), JStr cmd] \<and>
      filter startup_work (fst (main w fs)) = [] \<and>
      snd (snd (main w fs)) = fs) \<and>
   (dollar0 w = Some cmd \<and> list_all continues (getopt_results w) \<and>
    getopt_optind w \<noteq> length (argv w) \<longrightarrow>
      fst (snd (main w fs)) = Exit 1 \<and>
      last (fst (main w fs)) =
        GError ''Invalid usage (extra arguments), try `{{%s --help}}`.'' [JStr cmd] \<and>
      filter startup_work (fst (main w fs)) = [] \<and>
      snd (snd (main w fs)) = fs)"
proof (intro conjI impI)
  assume a: "dollar0 w = Some cmd \<and> getopt_results w = pre @ opt # post \<and>
    list_all continues pre \<and> \<not> recognized (option opt)"
  from a getopt_loop_continues[of pre w cmd "initial_vars w"] obtain evs s where
    p: "getopt_loop w cmd pre (initial_vars w) = (evs, Inr s)" by blast
  from a have "getopt_loop w cmd (opt # post) s =
      ([GError ''Invalid usage (near option '%s'), try `{{%s --help}}`.''
          [js_of (optopt opt), JStr cmd]], Inl (Exit 1))"
    by (simp add: getopt_case_unrecognized)
  with getopt_loop_append[OF p, of "opt # post"] a
  have l: "getopt_loop w cmd (getopt_results w) (initial_vars w) =
      (evs @ [GError ''Invalid usage (near option '%s'), try `{{%s --help}}`.''
                [js_of (optopt opt), JStr cmd]], Inl (Exit 1))"
    by simp
  from a have d: "dollar0 w = Some cmd" by simp
  have m: "main w fs =
      (ProcessOn ''disconnect'' # SetRootDir (rootDir w) # evs @
         [GError ''Invalid usage (near option '%s'), try `{{%s --help}}`.''
            [js_of (optopt opt), JStr cmd]], Exit 1, fs)"
    using main_in_loop[OF d l] by simp
  from m show "fst (snd (main w fs)) = Exit 1" by simp
  from m show "last (fst (main w fs)) =
        GError ''Invalid usage (near option '%s'), try `{{%s --help}}`.''
          [js_of (optopt opt), JStr cmd]" by simp
  from m loop_work[OF p] show "filter startup_work (fst (main w fs)) = []"
    by (simp add: startup_work_def)
  from m show "snd (snd (main w fs)) = fs" by simp
next
  assume a: "dollar0 w = Some cmd \<and> list_all continues (getopt_results w) \<and>
    getopt_optind w \<noteq> length (argv w)"
  from a getopt_loop_continues[of "getopt_results w" w cmd "initial_vars w"] obtain evs s where
    l: "getopt_loop w cmd (getopt_results w) (initial_vars w) = (evs, Inr s)" by blast
  from a have wa: "list_all with_argument (getopt_results w)"
    by (simp add: continues_with_argument)
  from getopt_loop_base_string[OF l wa initial_base] obtain b where b: "base s = JStr b"
    by blast
  from a b have v: "validate w cmd s fs =
      ([GError ''Invalid usage (extra arguments), try `{{%s --help}}`.'' [JStr cmd]],
       Inl (Exit 1))"
    by (simp add: validate_def Let_def)
  from a have d: "dollar0 w = Some cmd" by simp
  have m: "main w fs =
      (ProcessOn ''disconnect'' # SetRootDir (rootDir w) # evs @
         [GError ''Invalid usage (extra arguments), try `{{%s --help}}`.'' [JStr cmd]],
       Exit 1, fs)"
    using main_after_loop[OF d l v] by simp
  from m show "fst (snd (main w fs)) = Exit 1" by simp
  from m show "last (fst (main w fs)) =
        GError ''Invalid usage (extra arguments), try `{{%s --help}}`.'' [JStr cmd]" by simp
  from m loop_work[OF l] show "filter startup_work (fst (main w fs)) = []"
    by (simp add: startup_work_def)
  from m show "snd (snd (main w fs)) = fs" by simp
qed

text \<open>The runs of \<open>sl-pm -b /srv/pm -x -M\<close> and of \<open>sl-pm -s extra\<close>.\<close>

theorem usage_errors_do_no_work_witness:
  "fst (snd (main invalid_world [])) = Exit 1 \<and>
   last (fst (main invalid_world [])) =
     GError ''Invalid usage (near option '%s'), try `{{%s --help}}`.''
       [JStr ''x'', JStr ''sl-pm''] \<and>
   filter startup_work (fst (main invalid_world [])) = [] \<and>
   fst (snd (main extra_world [])) = Exit 1 \<and>
   last (fst (main extra_world [])) =
     GError ''Invalid usage (extra arguments), try `{{%s --help}}`.'' [JStr ''sl-pm''] \<and>
   filter startup_work (fst (main extra_world [])) = []"
proof -
  have i: "dollar0 invalid_world = Some ''sl-pm'' \<and>
    getopt_results invalid_world = [with_arg ''b'' ''/srv/pm''] @ invalid ''x'' # [flag ''M''] \<and>
    list_all continues [with_arg ''b'' ''/srv/pm''] \<and> \<not> recognized (option (invalid ''x''))"
    by (simp add: dollar0_def example_defs invalid_world_def extra_world_def continues_def
        recognized_def with_argument_def takes_argument_def)
  have e: "dollar0 extra_world = Some ''sl-pm'' \<and>
    list_all continues (getopt_results extra_world) \<and>
    getopt_optind extra_world \<noteq> length (argv extra_world)"
    by (simp add: dollar0_def example_defs invalid_world_def extra_world_def continues_def
        recognized_def with_argument_def takes_argument_def)
  have o: "js_of (optopt (invalid ''x'')) = JStr ''x''" by (simp add: js_of_def invalid_def)
  show ?thesis
    using usage_errors_do_no_work
        [of invalid_world "''sl-pm''" "[with_arg ''b'' ''/srv/pm'']" "invalid ''x''"
          "[flag ''M'']" "[]"]
      usage_errors_do_no_work [of extra_world "''sl-pm''" "[]" "invalid ''x''" "[]" "[]"]
      i e
    by (simp add: o)
qed

text \<open>
  C5 as it is stated fails for an argument vector with an unrecognized option after the
  help option: \<open>sl-pm -h -x\<close> prints the usage and exits with status 0.
\<close>

theorem unrecognized_after_help_counterexample:
  "getopt_results help_first_world = [flag ''h'', invalid ''x''] \<and>
   \<not> recognized (option (invalid ''x'')) \<and>
   main help_first_world [] =
     ([ProcessOn ''disconnect'', SetRootDir ''/opt/strong-pm'',
       ConsoleLog ''usage: sl-pm [options]''],
      Exit 0, [])"
  by (simp add: script_defs example_defs help_first_world_def recognized_def)

subsection \<open>The listen port\<close>

lemma getopt_case_no_listen_diagnostic:
  "getopt_case w cmd opt s = (evs, r) \<Longrightarrow>
   GError ''Listen port was not specified, try `{{%s --help}}`.'' args \<notin> set evs"
  by (auto simp: getopt_case_def split: if_splits option.splits)

lemma getopt_loop_no_listen_diagnostic:
  "getopt_loop w cmd opts s = (evs, r) \<Longrightarrow>
   GError ''Listen port was not specified, try `{{%s --help}}`.'' args \<notin> set evs"
proof (induction opts arbitrary: s evs r)
  case Nil
  then show ?case by simp
next
  case (Cons opt rest)
  obtain evs1 r1 where c: "getopt_case w cmd opt s = (evs1, r1)"
    by (cases "getopt_case w cmd opt s")
  show ?case
  proof (cases r1)
    case (Inl out)
    with Cons.prems c have "evs = evs1" by simp
    with getopt_case_no_listen_diagnostic[OF c] show ?thesis by simp
  next
    case (Inr s')
    obtain evs2 r2 where l: "getopt_loop w cmd rest s' = (evs2, r2)"
      by (cases "getopt_loop w cmd rest s'")
    with Cons.prems c Inr have "evs = evs1 @ evs2" by simp
    with getopt_case_no_listen_diagnostic[OF c] Cons.IH[OF l] show ?thesis by simp
  qed
qed

lemma validate_no_listen_diagnostic:
  "validate w cmd s fs = (evs, r) \<Longrightarrow> listen s \<noteq> JUndefined \<Longrightarrow>
   GError ''Listen port was not specified, try `{{%s --help}}`.'' args \<notin> set evs"
  by (auto simp: validate_def Let_def split: jsval.splits if_splits option.splits)

lemma backend_gate_no_listen_diagnostic:
  "backend_gate w cmd baseDir s fs = (evs, r) \<Longrightarrow>
   GError ''Listen port was not specified, try `{{%s --help}}`.'' args \<notin> set evs"
  by (auto simp: backend_gate_def checkAndUpgradeDb_def startPm_def Let_def
      split: if_splits option.splits prod.splits)

lemma initial_listen: "listen (initial_vars w) = JNum 8701"
  by (simp add: initial_vars_def)

lemma main_no_listen_diagnostic:
  assumes "\<And>cmd evs s.
    getopt_loop w cmd (getopt_results w) (initial_vars w) = (evs, Inr s) \<Longrightarrow>
    listen s \<noteq> JUndefined"
  shows "GError ''Listen port was not specified, try `{{%s --help}}`.'' args
    \<notin> set (fst (main w fs))"
proof (cases "dollar0 w")
  case None
  then show ?thesis by (simp add: main_def config_resolver_def)
next
  case (Some cmd)
  obtain evs r where l: "getopt_loop w cmd (getopt_results w) (initial_vars w) = (evs, r)"
    by (cases "getopt_loop w cmd (getopt_results w) (initial_vars w)")
  note n1 = getopt_loop_no_listen_diagnostic[OF l, of args]
  show ?thesis
  proof (cases r)
    case (Inl out)
    with Some l n1 show ?thesis by (simp add: main_def config_resolver_def)
  next
    case (Inr s)
    with l have l': "getopt_loop w cmd (getopt_results w) (initial_vars w) = (evs, Inr s)"
      by simp
    from assms[OF l'] have ls: "listen s \<noteq> JUndefined" .
    obtain evs' r' where v: "validate w cmd s fs = (evs', r')"
      by (cases "validate w cmd s fs")
    note n2 = validate_no_listen_diagnostic[OF v ls, of args]
    show ?thesis
    proof (cases r')
      case (Inl out)
      with Some l' v n1 n2 show ?thesis by (simp add: main_def config_resolver_def)
    next
      case (Inr t)
      obtain baseDir s' fs' where t: "t = (baseDir, s', fs')" by (cases t)
      obtain evs'' r'' where g: "backend_gate w cmd baseDir s' fs' = (evs'', r'')"
        by (cases "backend_gate w cmd baseDir s' fs'")
      note n3 = backend_gate_no_listen_diagnostic[OF g, of args]
      from Some l' v Inr t g n1 n2 n3 show ?thesis
        by (simp add: main_def config_resolver_def split: prod.splits)
    qed
  qed
qed

text \<open>
  C10, as amended. The variable \<open>listen\<close> starts as 8701 and only the option \<open>l\<close>
  assigns it. When the parser returns no option \<open>l\<close>, no run logs the diagnostic of the
  check \<open>listen == null\<close>; when the option loop then runs to its end (no version, help
  or unrecognized option has ended the process), \<open>listen\<close> is 8701, and when moreover
  no argument is left over (and \<open>base\<close> is a string, which \<open>path.resolve\<close> takes), the
  start-up goes on: the next thing the run does after the loop is to make the base
  directory. And whatever options the parser returns, when
  every option that takes an argument comes with one, no run logs that diagnostic: the
  branch is not reached.
\<close>

theorem listen_port_is_never_null:
  "(\<not> (\<exists>opt \<in> set (getopt_results w). option opt = ''l'') \<longrightarrow>
      GError ''Listen port was not specified, try `{{%s --help}}`.'' args
        \<notin> set (fst (main w fs)) \<and>
      (getopt_loop w cmd (getopt_results w) (initial_vars w) = (evs, Inr s) \<longrightarrow>
         listen s = JNum 8701 \<and>
         (dollar0 w = Some cmd \<and> base s = JStr b \<and>
          getopt_optind w = length (argv w) \<longrightarrow>
            (\<exists>more. fst (main w fs) =
               ProcessOn ''disconnect'' # SetRootDir (rootDir w) # evs @
                 Mkdirp (path_resolve w b) # more)))) \<and>
   (list_all with_argument (getopt_results w) \<longrightarrow>
      GError ''Listen port was not specified, try `{{%s --help}}`.'' args
        \<notin> set (fst (main w fs)))"
proof (intro conjI impI)
  assume n: "\<not> (\<exists>opt \<in> set (getopt_results w). option opt = ''l'')"
  have "listen s' \<noteq> JUndefined"
    if "getopt_loop w cmd' (getopt_results w) (initial_vars w) = (evs', Inr s')"
    for cmd' evs' s'
    using getopt_loop_listen_default[OF that n] by (simp add: initial_listen)
  from main_no_listen_diagnostic[of w args fs, OF this]
  show "GError ''Listen port was not specified, try `{{%s --help}}`.'' args
        \<notin> set (fst (main w fs))" .
  assume l: "getopt_loop w cmd (getopt_results w) (initial_vars w) = (evs, Inr s)"
  from getopt_loop_listen_default[OF l n] show ls: "listen s = JNum 8701"
    by (simp add: initial_listen)
  assume c: "dollar0 w = Some cmd \<and> base s = JStr b \<and> getopt_optind w = length (argv w)"
  obtain evs' r' where v: "validate w cmd s fs = (evs', r')"
    by (cases "validate w cmd s fs")
  with c ls have "\<exists>rest. evs' = Mkdirp (path_resolve w b) # rest"
    by (auto simp: validate_def Let_def split: option.splits if_splits)
  then obtain rest where e: "evs' = Mkdirp (path_resolve w b) # rest" by blast
  from c l v e show "\<exists>more. fst (main w fs) =
      ProcessOn ''disconnect'' # SetRootDir (rootDir w) # evs @
        Mkdirp (path_resolve w b) # more"
    by (auto simp: main_def config_resolver_def split: sum.splits prod.splits)
next
  assume wa: "list_all with_argument (getopt_results w)"
  have "listen s' \<noteq> JUndefined"
    if "getopt_loop w cmd' (getopt_results w) (initial_vars w) = (evs', Inr s')"
    for cmd' evs' s'
    using getopt_loop_listen_set[OF that wa] by (simp add: initial_listen)
  from main_no_listen_diagnostic[of w args fs, OF this]
  show "GError ''Listen port was not specified, try `{{%s --help}}`.'' args
        \<notin> set (fst (main w fs))" .
qed

lemma example_loop:
  "getopt_loop example_world ''sl-pm'' (getopt_results example_world)
     (initial_vars example_world) = ([], Inr example_vars)"
  by (simp add: script_defs example_defs example_vars_def)

text \<open>The runs of \<open>sl-pm\<close> and of \<open>sl-pm --listen 9000\<close>.\<close>

theorem listen_port_is_never_null_witness:
  "listen example_vars = JNum 8701 \<and>
   GError ''Listen port was not specified, try `{{%s --help}}`.'' [JStr ''sl-pm'']
     \<notin> set (fst (main example_world [])) \<and>
   (\<exists>more. fst (main example_world []) =
      ProcessOn ''disconnect'' # SetRootDir ''/opt/strong-pm'' #
        Mkdirp ''/home/pm/.strong-pm'' # more) \<and>
   list_all with_argument (getopt_results listen_world) \<and>
   GError ''Listen port was not specified, try `{{%s --help}}`.'' [JStr ''sl-pm'']
     \<notin> set (fst (main listen_world []))"
proof -
  have n: "\<not> (\<exists>opt \<in> set (getopt_results example_world). option opt = ''l'')"
    by (simp add: example_defs)
  have c: "dollar0 example_world = Some ''sl-pm'' \<and>
    base example_vars = JStr ''/home/pm/.strong-pm'' \<and>
    getopt_optind example_world = length (argv example_world)"
    by (simp add: dollar0_def example_defs example_vars_def)
  have p: "path_resolve example_world ''/home/pm/.strong-pm'' = ''/home/pm/.strong-pm''"
    "rootDir example_world = ''/opt/strong-pm''"
    by (simp_all add: example_defs)
  have wa: "list_all with_argument (getopt_results listen_world)"
    by (simp add: example_defs listen_world_def with_argument_def)
  show ?thesis
    using listen_port_is_never_null
        [of example_world "[JStr ''sl-pm'']" "[]" "''sl-pm''" "[]" example_vars
          "''/home/pm/.strong-pm''"]
      listen_port_is_never_null
        [of listen_world "[JStr ''sl-pm'']" "[]" "''sl-pm''" "[]" example_vars
          "''/home/pm/.strong-pm''"]
      example_loop n c wa
    by (simp add: p)
qed

text \<open>
  C10 as it is stated fails for an argument vector without the option \<open>l\<close> that ends
  the start-up some other way: \<open>sl-pm -h\<close> prints the usage and exits with status 0,
  and \<open>sl-pm extra\<close> exits with status 1 on the check for extra arguments; neither
  makes the base directory.
\<close>

theorem startup_without_listen_counterexample:
  "''l'' \<notin> set (map option (getopt_results help_world)) \<and>
   main help_world [] =
     ([ProcessOn ''disconnect'', SetRootDir ''/opt/strong-pm'',
       ConsoleLog ''usage: sl-pm [options]''],
      Exit 0, []) \<and>
   ''l'' \<notin> set (map option (getopt_results leftover_world)) \<and>
   main leftover_world [] =
     ([ProcessOn ''disconnect'', SetRootDir ''/opt/strong-pm'',
       GError ''Invalid usage (extra arguments), try `{{%s --help}}`.'' [JStr ''sl-pm'']],
      Exit 1, [])"
  by (simp add: script_defs example_defs help_world_def leftover_world_def)

subsection \<open>A driver that is not registered\<close>

lemma getopt_case_driver:
  "getopt_case w cmd opt s0 = (evs, Inr s) \<Longrightarrow> option opt \<noteq> ''d'' \<Longrightarrow> driver s = driver s0"
  by (auto simp: getopt_case_def split: if_splits option.splits)

lemma getopt_loop_driver_kept:
  "getopt_loop w cmd opts s0 = (evs, Inr s) \<Longrightarrow>
   \<not> (\<exists>opt \<in> set opts. option opt = ''d'') \<Longrightarrow> driver s = driver s0"
proof (induction opts arbitrary: s0 evs)
  case Nil
  then show ?case by simp
next
  case (Cons opt rest)
  from getopt_loop_Cons_Inr[OF Cons.prems(1)] obtain evs1 s1 evs2 where
    c: "getopt_case w cmd opt s0 = (evs1, Inr s1)" and
    l: "getopt_loop w cmd rest s1 = (evs2, Inr s)" by blast
  from Cons.prems(2) have "option opt \<noteq> ''d''" "\<not> (\<exists>opt \<in> set rest. option opt = ''d'')"
    by auto
  with Cons.IH[OF l] getopt_case_driver[OF c] show ?case by simp
qed

lemma getopt_loop_append_Inr:
  "getopt_loop w cmd (pre @ post) s0 = (evs, Inr s) \<Longrightarrow>
   \<exists>evs1 s1 evs2. getopt_loop w cmd pre s0 = (evs1, Inr s1) \<and>
     getopt_loop w cmd post s1 = (evs2, Inr s) \<and> evs = evs1 @ evs2"
proof (induction pre arbitrary: s0 evs)
  case Nil
  then show ?case by simp
next
  case (Cons opt rest)
  from Cons.prems have "getopt_loop w cmd (opt # (rest @ post)) s0 = (evs, Inr s)" by simp
  from getopt_loop_Cons_Inr[OF this] obtain evs1 s1 evs2 where
    c: "getopt_case w cmd opt s0 = (evs1, Inr s1)" and
    l: "getopt_loop w cmd (rest @ post) s1 = (evs2, Inr s)" and e: "evs = evs1 @ evs2" by blast
  from Cons.IH[OF l] obtain evs3 s3 evs4 where
    "getopt_loop w cmd rest s1 = (evs3, Inr s3)" "getopt_loop w cmd post s3 = (evs4, Inr s)"
    "evs2 = evs3 @ evs4" by blast
  with c e show ?case by simp
qed

lemma last_driver_option:
  assumes "getopt_loop w cmd (pre @ \<lparr> option = ''d'', optarg = Some name, optopt = oo \<rparr> # post) s0
      = (evs, Inr s)"
    and "\<not> (\<exists>opt \<in> set post. option opt = ''d'')"
  shows "driver s = DRIVERS_get (toLowerCase name)"
proof -
  from getopt_loop_append_Inr[OF assms(1)] obtain s1 evs2 where
    "getopt_loop w cmd (\<lparr> option = ''d'', optarg = Some name, optopt = oo \<rparr> # post) s1 =
      (evs2, Inr s)" by blast
  from getopt_loop_Cons_Inr[OF this] obtain evs3 s3 evs4 where
    c: "getopt_case w cmd \<lparr> option = ''d'', optarg = Some name, optopt = oo \<rparr> s1 =
      (evs3, Inr s3)" and
    l: "getopt_loop w cmd post s3 = (evs4, Inr s)" by blast
  from c have "driver s3 = DRIVERS_get (toLowerCase name)"
    by (auto simp: getopt_case_def)
  with getopt_loop_driver_kept[OF l assms(2)] show ?thesis by simp
qed

lemma unregistered_Absent:
  "toLowerCase name \<notin> dom DRIVERS \<Longrightarrow> toLowerCase name \<notin> set Object_prototype \<Longrightarrow>
   DRIVERS_get (toLowerCase name) = Absent"
  by (auto simp: DRIVERS_get_def split: option.splits)

lemma backend_gate_driver:
  "snd (backend_gate w cmd baseDir (s\<lparr>driver := d\<rparr>) fs) = snd (backend_gate w cmd baseDir s fs)"
  by (simp add: backend_gate_def checkAndUpgradeDb_def memoryDbLocation_def Let_def
      split: prod.splits option.splits)

lemma backend_gate_Running:
  "backend_gate w cmd baseDir s fs = (evs, Running, fs') \<Longrightarrow>
   NewServer \<lparr> Driver_option = driver s, baseDir_option = baseDir,
               basePort_option = basePort s, cmdName_option = cmd,
               listenPort_option = listen s, dbDriver_option = dbDriver s \<rparr> \<in> set evs"
  by (auto simp: backend_gate_def checkAndUpgradeDb_def startPm_def Let_def
      split: if_splits prod.splits option.splits)

text \<open>
  Where the lookup does what a registry of two entries does: for every name whose
  lower-casing is neither a key of the registry nor the name of a property of
  \<open>Object.prototype\<close>, the option \<open>d\<close> does not throw and leaves \<open>driver\<close>
  undefined. When that option is the last option \<open>d\<close> that the parser returns and the
  configuration is resolved, \<open>driver\<close> is still undefined, and a run that gets to
  \<open>startPm\<close> constructs the server with the undefined driver. Nothing in between
  looks at the driver: the gate ends the same way with an undefined driver as with any
  other.
\<close>

lemma unregistered_driver_is_passed_through:
  "(toLowerCase name \<notin> dom DRIVERS \<and> toLowerCase name \<notin> set Object_prototype \<longrightarrow>
      getopt_case w cmd \<lparr> option = ''d'', optarg = Some name, optopt = oo \<rparr> s0 =
        ([], Inr (s0\<lparr>driver := Absent\<rparr>)) \<and>
      (getopt_results w = pre @ \<lparr> option = ''d'', optarg = Some name, optopt = oo \<rparr> # post \<and>
       \<not> (\<exists>opt \<in> set post. option opt = ''d'') \<and>
       config_resolver w fs = (evs, Inr (cmd, baseDir, s, fs1)) \<longrightarrow>
         driver s = Absent \<and>
         (fst (snd (main w fs)) = Running \<longrightarrow>
            NewServer \<lparr> Driver_option = Absent, baseDir_option = baseDir,
                        basePort_option = basePort s, cmdName_option = cmd,
                        listenPort_option = listen s, dbDriver_option = dbDriver s \<rparr>
              \<in> set (fst (main w fs))))) \<and>
   snd (backend_gate w cmd baseDir (s\<lparr>driver := Absent\<rparr>) fs1) =
     snd (backend_gate w cmd baseDir s fs1)"
proof (intro conjI impI)
  assume u: "toLowerCase name \<notin> dom DRIVERS \<and> toLowerCase name \<notin> set Object_prototype"
  then have ab: "DRIVERS_get (toLowerCase name) = Absent"
    by (simp add: unregistered_Absent)
  then show "getopt_case w cmd \<lparr> option = ''d'', optarg = Some name, optopt = oo \<rparr> s0 =
        ([], Inr (s0\<lparr>driver := Absent\<rparr>))"
    by (simp add: getopt_case_def)
  assume r: "getopt_results w = pre @ \<lparr> option = ''d'', optarg = Some name, optopt = oo \<rparr> # post \<and>
       \<not> (\<exists>opt \<in> set post. option opt = ''d'') \<and>
       config_resolver w fs = (evs, Inr (cmd, baseDir, s, fs1))"
  then have cr: "config_resolver w fs = (evs, Inr (cmd, baseDir, s, fs1))" by simp
  from config_resolver_Inr[OF cr] obtain evs0 s0' where
    l: "getopt_loop w cmd (getopt_results w) (initial_vars w) = (evs0, Inr s0')" and
    s: "s = s0'\<lparr>base := JStr baseDir\<rparr>" by blast
  from r l have "getopt_loop w cmd
      (pre @ \<lparr> option = ''d'', optarg = Some name, optopt = oo \<rparr> # post) (initial_vars w) =
      (evs0, Inr s0')" by simp
  from last_driver_option[OF this] r ab s show d: "driver s = Absent" by simp
  assume run: "fst (snd (main w fs)) = Running"
  obtain evs' out fs2 where g: "backend_gate w cmd baseDir s fs1 = (evs', out, fs2)"
    by (cases "backend_gate w cmd baseDir s fs1")
  with cr have m: "main w fs = (evs @ evs', out, fs2)" by (simp add: main_def)
  with run have "out = Running" by simp
  with g backend_gate_Running[of w cmd baseDir s fs1 evs' fs2] d m
  show "NewServer \<lparr> Driver_option = Absent, baseDir_option = baseDir,
                        basePort_option = basePort s, cmdName_option = cmd,
                        listenPort_option = listen s, dbDriver_option = dbDriver s \<rparr>
              \<in> set (fst (main w fs))"
    by simp
next
  show "snd (backend_gate w cmd baseDir (s\<lparr>driver := Absent\<rparr>) fs1) =
     snd (backend_gate w cmd baseDir s fs1)"
    by (rule backend_gate_driver)
qed

lemma lower_names:
  "toLowerCase ''Kubernetes'' = ''kubernetes''"
  "toLowerCase ''Constructor'' = ''constructor''"
  "toLowerCase ''__PROTO__'' = ''__proto__''"
  by code_simp+

lemma unknown_driver_resolved:
  "config_resolver unknown_driver_world [] =
     ([ProcessOn ''disconnect'', SetRootDir ''/opt/strong-pm'',
       Mkdirp ''/home/pm/.strong-pm'', Chdir ''/home/pm/.strong-pm''],
      Inr (''sl-pm'', ''/home/pm/.strong-pm'', example_vars\<lparr>driver := Absent\<rparr>,
           [''/home/pm/.strong-pm'']))"
  by (simp add: script_defs example_defs unknown_driver_world_def example_vars_def lower_names)

text \<open>The run of \<open>sl-pm --driver Kubernetes\<close>.\<close>

lemma unknown_driver_run:
  "toLowerCase ''Kubernetes'' \<notin> dom DRIVERS \<and>
   toLowerCase ''Kubernetes'' \<notin> set Object_prototype \<and>
   fst (snd (main unknown_driver_world [])) = Running \<and>
   NewServer \<lparr> Driver_option = Absent, baseDir_option = ''/home/pm/.strong-pm'',
               basePort_option = JNum 3000, cmdName_option = ''sl-pm'',
               listenPort_option = JNum 8701, dbDriver_option = ''sqlite3'' \<rparr>
     \<in> set (fst (main unknown_driver_world []))"
proof -
  have u: "toLowerCase ''Kubernetes'' \<notin> dom DRIVERS \<and>
      toLowerCase ''Kubernetes'' \<notin> set Object_prototype"
    by (simp add: lower_names dom_DRIVERS Object_prototype_def)
  have r: "getopt_results unknown_driver_world =
      [] @ \<lparr> option = ''d'', optarg = Some ''Kubernetes'', optopt = None \<rparr> # [] \<and>
      \<not> (\<exists>opt \<in> set []. option opt = ''d'')"
    by (simp add: example_defs unknown_driver_world_def)
  have run: "fst (snd (main unknown_driver_world [])) = Running"
    by (simp add: main_def unknown_driver_resolved backend_gate_def checkAndUpgradeDb_def
        memoryDbLocation_def env_or_def example_vars_def Let_def)
      (simp add: example_defs unknown_driver_world_def)
  have v: "basePort (example_vars\<lparr>driver := Absent\<rparr>) = JNum 3000"
    "listen (example_vars\<lparr>driver := Absent\<rparr>) = JNum 8701"
    "dbDriver (example_vars\<lparr>driver := Absent\<rparr>) = ''sqlite3''"
    by (simp_all add: example_vars_def)
  show ?thesis
    using unregistered_driver_is_passed_through
        [of "''Kubernetes''" unknown_driver_world "''sl-pm''" None
          "initial_vars unknown_driver_world" "[]" "[]" "[]"
          "[ProcessOn ''disconnect'', SetRootDir ''/opt/strong-pm'',
            Mkdirp ''/home/pm/.strong-pm'', Chdir ''/home/pm/.strong-pm'']"
          "''/home/pm/.strong-pm''" "example_vars\<lparr>driver := Absent\<rparr>"
          "[''/home/pm/.strong-pm'']"]
      u r run unknown_driver_resolved
    by (simp add: v)
qed

text \<open>
  C7. The claim is that every name that is not in the registry, lower-cased, is looked
  up to an absent value, which is then handed to the server. The code does not do so
  for a name that is the name of a property of \<open>Object.prototype\<close>: the registry is
  an object literal, and \<open>DRIVERS['constructor']\<close> and \<open>DRIVERS['__proto__']\<close>
  yield the properties it inherits. For \<open>sl-pm --driver Constructor\<close> the name is not
  a key of the registry, the lookup yields the inherited property, which is not
  \<open>undefined\<close>, and the server is constructed with it.
\<close>

theorem inherited_driver_failing_input:
  "toLowerCase ''Constructor'' \<notin> dom DRIVERS \<and>
   DRIVERS_get (toLowerCase ''Constructor'') = Inherited ''constructor'' \<and>
   toLowerCase ''__PROTO__'' \<notin> dom DRIVERS \<and>
   DRIVERS_get (toLowerCase ''__PROTO__'') = Inherited ''__proto__'' \<and>
   main inherited_driver_world [] =
     ([ProcessOn ''disconnect'', SetRootDir ''/opt/strong-pm'',
       Mkdirp ''/home/pm/.strong-pm'', Chdir ''/home/pm/.strong-pm'',
       FsStat ''/home/pm/.strong-pm/strong-pm.json'',
       NewServer \<lparr> Driver_option = Inherited ''constructor'',
                   baseDir_option = ''/home/pm/.strong-pm'', basePort_option = JNum 3000,
                   cmdName_option = ''sl-pm'', listenPort_option = JNum 8701,
                   dbDriver_option = ''sqlite3'' \<rparr>,
       ServerOn ''listening'', ServerStart],
      Running, [''/home/pm/.strong-pm''])"
  by (simp add: script_defs example_defs inherited_driver_world_def lower_names)

subsection \<open>The handler for the loss of the parent\<close>

text \<open>
  Every run registers the handler for \<open>disconnect\<close> before it does anything else, and
  the handler exits with status 2.
\<close>

lemma disconnect_handler_first:
  "\<exists>rest. fst (main w fs) = ProcessOn ''disconnect'' # rest"
  by (auto simp: main_def config_resolver_def split: option.splits prod.splits sum.splits)

lemma disconnect_handler_exits: "on_disconnect = Exit 2"
  by (simp add: on_disconnect_def)

end
